theory Spec2Isabelle
  imports Complex_Main "HOL-Library.Multiset" "HOL-Library.Char_ord" "HOL-Library.List_Lexorder"
begin

section \<open>Market concentration page: data model\<close>

text \<open>
  The page \<^verbatim>\<open>views/market_monopoly_page.py\<close> scores (city, loan amount bin) segments
  by the Herfindahl-Hirschman index and selects segments for display. The embedding below
  follows \<^verbatim>\<open>_get_selected_score_records\<close>, \<^verbatim>\<open>_get_score_records\<close>,
  \<^verbatim>\<open>_show_slider\<close> and the part of \<^verbatim>\<open>render_page\<close> from the slider on.

  Numbers. The percentages, the standard deviation and the index are pandas float64
  columns. They are modelled by \<open>pdfloat\<close>: a real number computed exactly (rounding of
  double precision is not modelled), or one of the three special values that pandas
  produces instead of raising: NaN and the two infinities.
\<close>

datatype pdfloat = Fin real | PInf | NInf | NaN

text \<open>
  A score record is the dictionary built at lines 139-147. The selector only compares the
  \<open>hhi\<close> values with each other (\<^verbatim>\<open>sorted(..., key=lambda x: x["hhi"])\<close>), so the record is
  polymorphic in the type of \<open>hhi\<close>: the scorer fills it with a \<open>pdfloat\<close>, the selector
  works for every linearly ordered type of keys (Python numbers other than NaN).
\<close>

record 'h score_record =
  city :: string
  loan_amount_bin :: string
  bin_num_loans :: int
  bin_num_loans_pct_std_dev :: pdfloat
  hhi :: 'h

definition CITY_NUM_LOANS_MIN_THREASHOLD :: int where
  "CITY_NUM_LOANS_MIN_THREASHOLD = 10"

definition BIN_NUM_LOANS_MIN_THREASHOLD :: int where
  "BIN_NUM_LOANS_MIN_THREASHOLD = 10"

definition HIGH_HHI_SEGMENT :: string where
  "HIGH_HHI_SEGMENT = ''Top 10 Segments by Market Concentration''"

definition LOW_HHI_SEGMENT :: string where
  "LOW_HHI_SEGMENT = ''Top 10 Most Fragmented Market Segments''"

definition ALL_SEGMENT :: string where
  "ALL_SEGMENT = ''All Market Segments''"

section \<open>The selector\<close>

text \<open>
  Python's \<^verbatim>\<open>sorted(xs, key=k)\<close> is a stable sort by the keys; with \<^verbatim>\<open>reverse=True\<close>
  the list is reversed, sorted, and reversed again, which is how CPython keeps the sort
  stable in descending order.
\<close>

definition py_sorted :: "('a \<Rightarrow> 'k::linorder) \<Rightarrow> bool \<Rightarrow> 'a list \<Rightarrow> 'a list" where
  "py_sorted key reverse xs =
     (if reverse then rev (sort_key key (rev xs)) else sort_key key xs)"

text \<open>The dictionary \<^verbatim>\<open>order_map\<close> of lines 65-74, and \<^verbatim>\<open>dict.get(k, default)\<close>.\<close>

definition order_map :: "(string \<times> int) list" where
  "order_map =
     [(''$5M - $10M'', 1),
      (''$2.5M - $5M'', 2),
      (''$1M - $2.5M'', 3),
      (''$500K - $1M'', 4),
      (''$250K - $500K'', 5),
      (''$100K - $250K'', 6),
      (''$50K - $100K'', 7),
      (''$0 - $50K'', 8)]"

definition dict_get :: "('k \<times> 'v) list \<Rightarrow> 'k \<Rightarrow> 'v \<Rightarrow> 'v" where
  "dict_get d k dflt = (case map_of d k of Some v \<Rightarrow> v | None \<Rightarrow> dflt)"

definition filtered_records :: "'h score_record list \<Rightarrow> int \<Rightarrow> 'h score_record list" where
  "filtered_records score_records selected_min_num_loans =
     filter (\<lambda>record. bin_num_loans record \<ge> selected_min_num_loans) score_records"

definition label_rank :: "string \<Rightarrow> int" where
  "label_rank label = dict_get order_map label 999"

definition bin_rank :: "'h score_record \<Rightarrow> int" where
  "bin_rank x = label_rank (loan_amount_bin x)"

definition canonical_bins :: "string list" where
  "canonical_bins = map fst order_map"

definition get_selected_score_records ::
  "('h::linorder) score_record list \<Rightarrow> int \<Rightarrow> string \<Rightarrow> 'h score_record list" where
  "get_selected_score_records score_records selected_min_num_loans market_category =
     (if market_category = HIGH_HHI_SEGMENT then
        take 10 (py_sorted hhi True (filtered_records score_records selected_min_num_loans))
      else if market_category = LOW_HHI_SEGMENT then
        take 10 (py_sorted hhi False (filtered_records score_records selected_min_num_loans))
      else
        py_sorted bin_rank False (filtered_records score_records selected_min_num_loans))"

section \<open>The caller: slider and rendering of the selection\<close>

datatype py_error = ValueError | KeyError

text \<open>
  \<^verbatim>\<open>max(...)\<close> over a generator raises \<^verbatim>\<open>ValueError\<close> when there is no element.
\<close>

fun py_max :: "int list \<Rightarrow> py_error + int" where
  "py_max [] = Inl ValueError"
| "py_max (x # xs) = Inr (fold max xs x)"

text \<open>
  \<^verbatim>\<open>_show_slider\<close> (lines 250-272). The widget \<^verbatim>\<open>st.slider\<close> is the user's choice: a
  parameter that receives the minimum, the maximum, the default and the step.
\<close>

definition show_slider ::
  "(int \<Rightarrow> int \<Rightarrow> int \<Rightarrow> int \<Rightarrow> int) \<Rightarrow> 'h score_record list \<Rightarrow> py_error + int" where
  "show_slider st_slider score_records =
     (case py_max (map bin_num_loans score_records) of
        Inl e \<Rightarrow> Inl e
      | Inr max_bin_num_loans \<Rightarrow>
          (let max_value = \<lceil>real_of_int max_bin_num_loans / 10\<rceil> * 10;
               min_value = BIN_NUM_LOANS_MIN_THREASHOLD;
               default_value = min_value;
               step = (if max_value \<le> 20 then 1
                       else if max_value \<le> 100 then 5
                       else if max_value \<le> 500 then 10
                       else 50)
           in Inr (st_slider min_value max_value default_value step)))"

text \<open>
  \<^verbatim>\<open>render_page\<close> from line 308 on (the slider, the selection and what is drawn from
  it), as the list of the display calls it makes. The calls that draw are events; the
  ones that receive the selection carry it. The radio button's answer and the toggle's
  are parameters, as the slider is.
\<close>

datatype 'h ui_event =
    ShowStInfo string
  | ShowDefaultFooter
  | StWrite string
  | StMarkdown string
  | ShowMetricsSelectedData "'h score_record list"
  | ShowStackedBar "'h score_record list"
  | ShowDf "'h score_record list"
  | ShowInfoStackedBar string

definition render_page ::
  "(int \<Rightarrow> int \<Rightarrow> int \<Rightarrow> int \<Rightarrow> int) \<Rightarrow> bool \<Rightarrow> ('h::linorder) score_record list \<Rightarrow> string
     \<Rightarrow> py_error + 'h ui_event list" where
  "render_page st_slider st_toggle score_records selected_hhi_category =
     (case show_slider st_slider score_records of
        Inl e \<Rightarrow> Inl e
      | Inr selected_min_num_loans \<Rightarrow>
          (let selected_score_records =
                 get_selected_score_records score_records selected_min_num_loans
                   selected_hhi_category
           in if selected_score_records = [] then
                Inr [ShowStInfo ''no_data_selected'', ShowDefaultFooter]
              else
                Inr ([StWrite [], StMarkdown (''#### '' @ selected_hhi_category),
                      StWrite [], ShowMetricsSelectedData selected_score_records,
                      StWrite [], ShowStackedBar selected_score_records]
                     @ (if st_toggle then [ShowDf selected_score_records] else [])
                     @ [ShowInfoStackedBar selected_hhi_category, ShowDefaultFooter])))"

section \<open>The scorer\<close>

subsection \<open>pandas arithmetic on float columns\<close>

text \<open>
  An integer column divided by an integer column is a float column; a zero divisor gives
  NaN (for \<open>0 / 0\<close>) or an infinity, never an exception.
\<close>

definition pd_truediv :: "nat \<Rightarrow> nat \<Rightarrow> pdfloat" where
  "pd_truediv a b =
     (if b = 0 then (if a = 0 then NaN else PInf) else Fin (real a / real b))"

fun pd_mul :: "pdfloat \<Rightarrow> real \<Rightarrow> pdfloat" where
  "pd_mul (Fin x) c = Fin (x * c)"
| "pd_mul NaN c = NaN"
| "pd_mul PInf c = (if 0 < c then PInf else if c < 0 then NInf else NaN)"
| "pd_mul NInf c = (if 0 < c then NInf else if c < 0 then PInf else NaN)"

fun pd_pow2 :: "pdfloat \<Rightarrow> pdfloat" where
  "pd_pow2 (Fin x) = Fin (x ^ 2)"
| "pd_pow2 NaN = NaN"
| "pd_pow2 PInf = PInf"
| "pd_pow2 NInf = PInf"

fun finite_values :: "pdfloat list \<Rightarrow> real list" where
  "finite_values [] = []"
| "finite_values (Fin x # xs) = x # finite_values xs"
| "finite_values (_ # xs) = finite_values xs"

text \<open>
  \<^verbatim>\<open>Series.sum()\<close> skips NaN; the sum of no value is 0; infinities of both signs give NaN.
\<close>

definition pd_sum :: "pdfloat list \<Rightarrow> pdfloat" where
  "pd_sum xs =
     (if PInf \<in> set xs \<and> NInf \<in> set xs then NaN
      else if PInf \<in> set xs then PInf
      else if NInf \<in> set xs then NInf
      else Fin (sum_list (finite_values xs)))"

text \<open>
  The group-wise \<^verbatim>\<open>"std"\<close> of pandas: NaN is skipped, the denominator is the number of
  values minus one (\<^verbatim>\<open>ddof=1\<close>), and fewer than two values give NaN.
\<close>

definition sample_std :: "real list \<Rightarrow> real" where
  "sample_std vs =
     (let n = real (length vs); mean = sum_list vs / n
      in sqrt (sum_list (map (\<lambda>v. (v - mean) ^ 2) vs) / (n - 1)))"

definition pd_std :: "pdfloat list \<Rightarrow> pdfloat" where
  "pd_std xs =
     (let ys = filter (\<lambda>x. x \<noteq> NaN) xs
      in if length ys < 2 then NaN
         else if PInf \<in> set ys \<or> NInf \<in> set ys then NaN
         else Fin (sample_std (finite_values ys)))"

subsection \<open>Tables\<close>

text \<open>
  A row of the loan table \<open>df\<close>: \<^verbatim>\<open>loanAmount\<close> is numeric or missing after
  \<^verbatim>\<open>pd.to_numeric(..., errors="coerce")\<close>.
\<close>

record loan =
  loan_city :: string
  loan_lender :: string
  loanAmount :: "real option"

text \<open>
  A row of the table returned by \<^verbatim>\<open>get_lender_to_loan_amount_bins\<close>, with the columns its
  caller documents (lines 154-157): lender, bin label and the number of loans, a count.
  The scorer adds three columns to it, one after the other; each is a record extension.
\<close>

record lender_bin_row =
  lender :: string
  row_loan_amount_bin :: string
  num_loans :: nat

record row_with_total = lender_bin_row +
  row_bin_num_loans :: nat

record row_with_pct = row_with_total +
  lender_num_loans_pct :: pdfloat

record row_with_std = row_with_pct +
  row_bin_num_loans_pct_std_dev :: pdfloat

text \<open>
  \<^verbatim>\<open>groupby("loan_amount_bin", observed=True)\<close>: the group of a label is the rows that
  carry it, in table order; the groups are visited in the sorted order of their labels.
\<close>

definition group_of :: "string \<Rightarrow> ('a lender_bin_row_scheme) list \<Rightarrow> ('a lender_bin_row_scheme) list" where
  "group_of b rows = filter (\<lambda>q. row_loan_amount_bin q = b) rows"

definition group_keys :: "('a lender_bin_row_scheme) list \<Rightarrow> string list" where
  "group_keys rows = sort (remdups (map row_loan_amount_bin rows))"

text \<open>Lines 102-105: \<^verbatim>\<open>transform("sum")\<close> gives every row the total of its group.\<close>

definition add_bin_num_loans :: "lender_bin_row list \<Rightarrow> row_with_total list" where
  "add_bin_num_loans rows =
     map (\<lambda>r. \<lparr>lender = lender r, row_loan_amount_bin = row_loan_amount_bin r,
               num_loans = num_loans r,
               row_bin_num_loans =
                 sum_list (map num_loans (group_of (row_loan_amount_bin r) rows))\<rparr>) rows"

text \<open>Lines 107-111: the percentage of every row, \<^verbatim>\<open>num_loans / bin_num_loans * 100\<close>.\<close>

definition add_lender_num_loans_pct :: "row_with_total list \<Rightarrow> row_with_pct list" where
  "add_lender_num_loans_pct rows =
     map (\<lambda>r. \<lparr>lender = lender r, row_loan_amount_bin = row_loan_amount_bin r,
               num_loans = num_loans r, row_bin_num_loans = row_bin_num_loans r,
               lender_num_loans_pct =
                 pd_mul (pd_truediv (num_loans r) (row_bin_num_loans r)) 100\<rparr>) rows"

text \<open>Lines 113-115: keep the rows whose group total reaches the minimum.\<close>

definition keep_min_bin_num_loans :: "row_with_pct list \<Rightarrow> row_with_pct list" where
  "keep_min_bin_num_loans rows =
     filter (\<lambda>r. int (row_bin_num_loans r) \<ge> BIN_NUM_LOANS_MIN_THREASHOLD) rows"

text \<open>Lines 118-123: \<^verbatim>\<open>transform("std")\<close> of the percentages of each group.\<close>

definition add_std_dev :: "row_with_pct list \<Rightarrow> row_with_std list" where
  "add_std_dev rows =
     map (\<lambda>r. \<lparr>lender = lender r, row_loan_amount_bin = row_loan_amount_bin r,
               num_loans = num_loans r, row_bin_num_loans = row_bin_num_loans r,
               lender_num_loans_pct = lender_num_loans_pct r,
               row_bin_num_loans_pct_std_dev =
                 pd_std (map lender_num_loans_pct (group_of (row_loan_amount_bin r) rows))\<rparr>)
       rows"

text \<open>
  Lines 126-128: the series \<^verbatim>\<open>hhi_by_bin\<close>, indexed by the labels of the groups;
  \<^verbatim>\<open>hhi_by_bin[bin_value]\<close> raises \<^verbatim>\<open>KeyError\<close> on a label that is not in the index.
\<close>

definition hhi_by_bin :: "row_with_std list \<Rightarrow> (string \<times> pdfloat) list" where
  "hhi_by_bin rows =
     map (\<lambda>b. (b, pd_sum (map pd_pow2 (map lender_num_loans_pct (group_of b rows)))))
       (group_keys rows)"

definition series_getitem :: "('k \<times> 'v) list \<Rightarrow> 'k \<Rightarrow> py_error + 'v" where
  "series_getitem s k = (case map_of s k of None \<Rightarrow> Inl KeyError | Some v \<Rightarrow> Inr v)"

text \<open>
  Lines 131-147: the loop over the groups of one city; \<open>score_records\<close> is the list that
  the loop appends to.
\<close>

fun append_bin_records ::
  "string \<Rightarrow> row_with_std list \<Rightarrow> (string \<times> pdfloat) list \<Rightarrow> string list
     \<Rightarrow> pdfloat score_record list \<Rightarrow> py_error + pdfloat score_record list" where
  "append_bin_records cty rows hhis [] score_records = Inr score_records"
| "append_bin_records cty rows hhis (bin_value # bins) score_records =
     (case group_of bin_value rows of
        [] \<Rightarrow> append_bin_records cty rows hhis bins score_records
      | first # _ \<Rightarrow>
          (case series_getitem hhis bin_value of
             Inl e \<Rightarrow> Inl e
           | Inr h \<Rightarrow>
               append_bin_records cty rows hhis bins
                 (score_records @
                  [\<lparr>city = cty, loan_amount_bin = bin_value,
                    bin_num_loans = int (row_bin_num_loans first),
                    bin_num_loans_pct_std_dev = row_bin_num_loans_pct_std_dev first,
                    hhi = h\<rparr>])))"

text \<open>Lines 98-147: the body of the loop over the cities, for one city.\<close>

definition scored_table :: "lender_bin_row list \<Rightarrow> row_with_std list" where
  "scored_table lender_to_loan_amount_bins =
     add_std_dev (keep_min_bin_num_loans
       (add_lender_num_loans_pct (add_bin_num_loans lender_to_loan_amount_bins)))"

definition append_city_records ::
  "string \<Rightarrow> lender_bin_row list \<Rightarrow> pdfloat score_record list
     \<Rightarrow> py_error + pdfloat score_record list" where
  "append_city_records cty lender_to_loan_amount_bins score_records =
     (let rows = scored_table lender_to_loan_amount_bins
      in append_bin_records cty rows (hhi_by_bin rows) (group_keys rows) score_records)"

fun score_cities ::
  "(loan list \<Rightarrow> lender_bin_row list) \<Rightarrow> (string \<times> loan list) list
     \<Rightarrow> pdfloat score_record list \<Rightarrow> py_error + pdfloat score_record list" where
  "score_cities get_rows [] score_records = Inr score_records"
| "score_cities get_rows ((cty, city_df) # rest) score_records =
     (case append_city_records cty (get_rows city_df) score_records of
        Inl e \<Rightarrow> Inl e
      | Inr score_records' \<Rightarrow> score_cities get_rows rest score_records')"

text \<open>
  Lines 85-87: the dictionary \<^verbatim>\<open>city_to_df\<close>. \<^verbatim>\<open>groupby("city")\<close> visits the cities of the
  filtered table in sorted order, each with its rows in table order.
\<close>

definition city_df_of :: "loan list \<Rightarrow> string list \<Rightarrow> string \<Rightarrow> loan list" where
  "city_df_of df above_threshold_cities cty =
     filter (\<lambda>l. loan_city l = cty)
       (filter (\<lambda>l. loan_city l \<in> set above_threshold_cities) df)"

definition city_to_df :: "loan list \<Rightarrow> string list \<Rightarrow> (string \<times> loan list) list" where
  "city_to_df df above_threshold_cities =
     map (\<lambda>cty. (cty, city_df_of df above_threshold_cities cty))
       (sort (remdups (map loan_city
          (filter (\<lambda>l. loan_city l \<in> set above_threshold_cities) df))))"

text \<open>
  Lines 90-93. The table \<^verbatim>\<open>BIN_EDGE_TO_LABEL\<close> (upper edge of a bin to its label) is
  defined in \<^verbatim>\<open>utils/market_share_stacked_bar.py\<close> and is a parameter here, a dictionary
  as an association list; a lookup of a missing key raises \<^verbatim>\<open>KeyError\<close>.
\<close>

definition bin_edges :: "(int \<times> string) list \<Rightarrow> int list" where
  "bin_edges BIN_EDGE_TO_LABEL = 0 # sort (remdups (map fst BIN_EDGE_TO_LABEL))"

fun dict_getitems :: "('k \<times> 'v) list \<Rightarrow> 'k list \<Rightarrow> py_error + 'v list" where
  "dict_getitems d [] = Inr []"
| "dict_getitems d (k # ks) =
     (case map_of d k of
        None \<Rightarrow> Inl KeyError
      | Some v \<Rightarrow> (case dict_getitems d ks of Inl e \<Rightarrow> Inl e | Inr vs \<Rightarrow> Inr (v # vs)))"

definition bin_labels :: "(int \<times> string) list \<Rightarrow> py_error + string list" where
  "bin_labels BIN_EDGE_TO_LABEL =
     dict_getitems BIN_EDGE_TO_LABEL (sort (remdups (map fst BIN_EDGE_TO_LABEL)))"

text \<open>
  \<^verbatim>\<open>_get_score_records\<close>. The helper \<^verbatim>\<open>get_lender_to_loan_amount_bins\<close> of
  \<^verbatim>\<open>utils/lender.py\<close> is a parameter: any function from the loans of a city, the edges
  and the labels to a table of lender-bin rows.
\<close>

definition get_score_records ::
  "(loan list \<Rightarrow> int list \<Rightarrow> string list \<Rightarrow> lender_bin_row list) \<Rightarrow> (int \<times> string) list
     \<Rightarrow> loan list \<Rightarrow> string list \<Rightarrow> py_error + pdfloat score_record list" where
  "get_score_records get_lender_to_loan_amount_bins BIN_EDGE_TO_LABEL df above_threshold_cities =
     (case bin_labels BIN_EDGE_TO_LABEL of
        Inl e \<Rightarrow> Inl e
      | Inr labels \<Rightarrow>
          score_cities
            (\<lambda>city_df. get_lender_to_loan_amount_bins city_df (bin_edges BIN_EDGE_TO_LABEL) labels)
            (city_to_df df above_threshold_cities) [])"

section \<open>Vocabulary of the statements\<close>

text \<open>
  The loans of a bin in a table of lender-bin rows, and the share of each lender of a
  segment written as the specification writes it:
  \<open>lender_share_pct = lender_num_loans / bin_num_loans * 100\<close>, with \<open>bin_num_loans\<close> the
  sum of the loan counts of the segment; \<open>segment_hhi\<close> is the sum of the squared shares.
  These follow the specification's words and are compared with what the code computes.
\<close>

definition bin_total :: "string \<Rightarrow> lender_bin_row list \<Rightarrow> nat" where
  "bin_total b rows = sum_list (map num_loans (group_of b rows))"

definition lender_share_pct :: "lender_bin_row list \<Rightarrow> real list" where
  "lender_share_pct segment =
     map (\<lambda>q. real (num_loans q) / real (sum_list (map num_loans segment)) * 100) segment"

definition segment_hhi :: "lender_bin_row list \<Rightarrow> real" where
  "segment_hhi segment = sum_list (map (\<lambda>s. s ^ 2) (lender_share_pct segment))"

text \<open>
  The segment of a score record: the lender-bin rows that the helper returned for the
  city of the record and that carry the bin label of the record.
\<close>

definition segment_of ::
  "(loan list \<Rightarrow> int list \<Rightarrow> string list \<Rightarrow> lender_bin_row list) \<Rightarrow> int list \<Rightarrow> string list
     \<Rightarrow> loan list \<Rightarrow> string list \<Rightarrow> 'h score_record \<Rightarrow> lender_bin_row list" where
  "segment_of glb edges labels df cities r =
     group_of (loan_amount_bin r) (glb (city_df_of df cities (city r)) edges labels)"

text \<open>
  The records that the loop over the groups appends for one bin and for one city, in
  closed form; the lemmas below show that the loops compute exactly these.
\<close>

definition bin_records :: "string \<Rightarrow> row_with_std list \<Rightarrow> string \<Rightarrow> pdfloat score_record list" where
  "bin_records cty rows b =
     (case group_of b rows of
        [] \<Rightarrow> []
      | first # _ \<Rightarrow>
          [\<lparr>city = cty, loan_amount_bin = b,
            bin_num_loans = int (row_bin_num_loans first),
            bin_num_loans_pct_std_dev = row_bin_num_loans_pct_std_dev first,
            hhi = pd_sum (map pd_pow2 (map lender_num_loans_pct (group_of b rows)))\<rparr>])"

definition city_records :: "string \<Rightarrow> lender_bin_row list \<Rightarrow> pdfloat score_record list" where
  "city_records cty lender_to_loan_amount_bins =
     concat (map (bin_records cty (scored_table lender_to_loan_amount_bins))
       (group_keys (scored_table lender_to_loan_amount_bins)))"

section \<open>Example inputs\<close>

text \<open>
  Score records for the selector, and the tables of one city for the scorer: lender A
  with 8 loans and lender B with 4 loans in one bin, a single lender with 10 loans in a
  second bin, a bin with 5 loans, and a bin whose only row counts no loan.
\<close>

definition seg :: "string \<Rightarrow> string \<Rightarrow> int \<Rightarrow> real \<Rightarrow> real score_record" where
  "seg c b n h = \<lparr>city = c, loan_amount_bin = b, bin_num_loans = n,
     bin_num_loans_pct_std_dev = NaN, hhi = h\<rparr>"

definition example_segments :: "real score_record list" where
  "example_segments =
     [seg ''DOVER'' ''$0 - $50K'' 12 5000, seg ''SALEM'' ''other'' 30 2500,
      seg ''DOVER'' ''$5M - $10M'' 15 10000, seg ''TROY'' ''other'' 11 5000,
      seg ''TROY'' ''$0 - $50K'' 9 10000]"

definition crowded_segments :: "real score_record list" where
  "crowded_segments =
     [seg ''C0'' ''$0 - $50K'' 10 5000, seg ''C1'' ''$0 - $50K'' 10 5000,
      seg ''C2'' ''$0 - $50K'' 10 5000, seg ''C3'' ''$0 - $50K'' 10 5000,
      seg ''C4'' ''$0 - $50K'' 10 5000, seg ''C5'' ''$0 - $50K'' 10 5000,
      seg ''C6'' ''$0 - $50K'' 10 5000, seg ''C7'' ''$0 - $50K'' 10 5000,
      seg ''C8'' ''$0 - $50K'' 10 5000, seg ''C9'' ''$0 - $50K'' 10 5000,
      seg ''DOVER'' ''$0 - $50K'' 20 1000]"

definition example_bin_table :: "(int \<times> string) list" where
  "example_bin_table =
     [(50000, ''$0 - $50K''), (100000, ''$50K - $100K''), (250000, ''$100K - $250K'')]"

definition dover_loans :: "loan list" where
  "dover_loans =
     [\<lparr>loan_city = ''DOVER'', loan_lender = ''A'', loanAmount = Some 120000\<rparr>,
      \<lparr>loan_city = ''SALEM'', loan_lender = ''B'', loanAmount = None\<rparr>]"

definition dover_rows :: "lender_bin_row list" where
  "dover_rows =
     [\<lparr>lender = ''A'', row_loan_amount_bin = ''$100K - $250K'', num_loans = 8\<rparr>,
      \<lparr>lender = ''B'', row_loan_amount_bin = ''$100K - $250K'', num_loans = 4\<rparr>,
      \<lparr>lender = ''A'', row_loan_amount_bin = ''$0 - $50K'', num_loans = 10\<rparr>,
      \<lparr>lender = ''B'', row_loan_amount_bin = ''$50K - $100K'', num_loans = 5\<rparr>,
      \<lparr>lender = ''C'', row_loan_amount_bin = ''$5M - $10M'', num_loans = 0\<rparr>]"

definition example_helper :: "loan list \<Rightarrow> int list \<Rightarrow> string list \<Rightarrow> lender_bin_row list" where
  "example_helper city_df edges labels = dover_rows"

definition dover_small :: "pdfloat score_record" where
  "dover_small = \<lparr>city = ''DOVER'', loan_amount_bin = ''$0 - $50K'', bin_num_loans = 10,
     bin_num_loans_pct_std_dev = NaN, hhi = Fin 10000\<rparr>"

definition dover_mid :: "pdfloat score_record" where
  "dover_mid = \<lparr>city = ''DOVER'', loan_amount_bin = ''$100K - $250K'', bin_num_loans = 12,
     bin_num_loans_pct_std_dev = Fin (sqrt (5000 / 9)), hhi = Fin (50000 / 9)\<rparr>"

definition sparse_rows :: "lender_bin_row list" where
  "sparse_rows =
     [\<lparr>lender = ''C'', row_loan_amount_bin = ''$5M - $10M'', num_loans = 0\<rparr>,
      \<lparr>lender = ''B'', row_loan_amount_bin = ''$50K - $100K'', num_loans = 5\<rparr>]"

section \<open>Properties of the selector\<close>

subsection \<open>Sorting and ranks\<close>

lemma py_sorted_mset: "mset (py_sorted key r xs) = mset xs"
  by (simp add: py_sorted_def)

lemma py_sorted_stable:
  "filter (\<lambda>x. key x = k) (py_sorted key r xs) = filter (\<lambda>x. key x = k) xs"
  by (simp add: py_sorted_def rev_filter [symmetric] sort_key_stable)

lemma py_sorted_asc: "sorted_wrt (\<lambda>a b. key a \<le> key b) (py_sorted key False xs)"
proof -
  have "sorted (map key (sort_key key xs))" by simp
  then show ?thesis by (simp add: py_sorted_def sorted_wrt_map del: sorted_sort_key)
qed

lemma py_sorted_desc: "sorted_wrt (\<lambda>a b. key b \<le> key a) (py_sorted key True xs)"
proof -
  have "sorted (map key (sort_key key (rev xs)))" by simp
  then have "sorted_wrt (\<lambda>a b. key a \<le> key b) (sort_key key (rev xs))"
    by (simp add: sorted_wrt_map del: sorted_sort_key)
  then show ?thesis by (simp add: py_sorted_def sorted_wrt_rev)
qed

lemma category_neq:
  "ALL_SEGMENT \<noteq> HIGH_HHI_SEGMENT" "ALL_SEGMENT \<noteq> LOW_HHI_SEGMENT"
  "LOW_HHI_SEGMENT \<noteq> HIGH_HHI_SEGMENT"
  by (simp_all add: ALL_SEGMENT_def LOW_HHI_SEGMENT_def HIGH_HHI_SEGMENT_def)

lemma selected_other:
  "c \<noteq> HIGH_HHI_SEGMENT \<Longrightarrow> c \<noteq> LOW_HHI_SEGMENT \<Longrightarrow>
   get_selected_score_records rs t c = py_sorted bin_rank False (filtered_records rs t)"
  by (simp add: get_selected_score_records_def)

lemma canonical_bins_eq:
  "canonical_bins = [''$5M - $10M'', ''$2.5M - $5M'', ''$1M - $2.5M'', ''$500K - $1M'',
     ''$250K - $500K'', ''$100K - $250K'', ''$50K - $100K'', ''$0 - $50K'']"
  by (simp add: canonical_bins_def order_map_def)

lemma rank_known: "map label_rank canonical_bins = [1, 2, 3, 4, 5, 6, 7, 8]"
  by (simp add: canonical_bins_eq label_rank_def dict_get_def order_map_def)

lemma rank_unknown: "l \<notin> set canonical_bins \<Longrightarrow> label_rank l = 999"
  by (simp add: canonical_bins_eq label_rank_def dict_get_def order_map_def)

lemma rank_known_lt: "l \<in> set canonical_bins \<Longrightarrow> label_rank l < 999"
  by (auto simp add: canonical_bins_eq label_rank_def dict_get_def order_map_def)

lemma set_filtered_mono:
  "t \<le> t' \<Longrightarrow> set (filtered_records rs t') \<subseteq> set (filtered_records rs t)"
  by (auto simp add: filtered_records_def)

lemma set_selected_subset:
  fixes rs :: "('h::linorder) score_record list"
  shows "set (get_selected_score_records rs t c) \<subseteq> set (filtered_records rs t)"
proof -
  have "set (take 10 (py_sorted hhi r (filtered_records rs t))) \<subseteq> set (filtered_records rs t)" for r
    using set_take_subset [of 10 "py_sorted hhi r (filtered_records rs t)"]
      set_mset_mset [of "py_sorted hhi r (filtered_records rs t)"]
    by (simp only: py_sorted_mset set_mset_mset)
  moreover have "set (py_sorted bin_rank False (filtered_records rs t)) = set (filtered_records rs t)"
    using set_mset_mset [of "py_sorted bin_rank False (filtered_records rs t)"]
    by (simp only: py_sorted_mset set_mset_mset)
  ultimately show ?thesis by (simp add: get_selected_score_records_def)
qed

lemma set_selected_all:
  fixes rs :: "('h::linorder) score_record list"
  assumes "(c \<noteq> HIGH_HHI_SEGMENT \<and> c \<noteq> LOW_HHI_SEGMENT) \<or> length (filtered_records rs t) \<le> 10"
  shows "set (get_selected_score_records rs t c) = set (filtered_records rs t)"
proof -
  have len: "length (py_sorted k r xs) = length xs" for k :: "'h score_record \<Rightarrow> 'k::linorder" and r xs
    by (simp add: py_sorted_def)
  have st: "set (py_sorted k r xs) = set xs" for k :: "'h score_record \<Rightarrow> 'k::linorder" and r xs
    by (simp add: py_sorted_def)
  show ?thesis
    using assms by (auto simp add: get_selected_score_records_def len st)
qed

lemma filtered_empty:
  "\<forall>r\<in>set rs. bin_num_loans r < t \<Longrightarrow> filtered_records rs t = []"
  by (auto simp add: filtered_records_def filter_empty_conv)

lemma sel_all_example:
  "get_selected_score_records example_segments 10 ALL_SEGMENT =
     [seg ''DOVER'' ''$5M - $10M'' 15 10000, seg ''DOVER'' ''$0 - $50K'' 12 5000,
      seg ''SALEM'' ''other'' 30 2500, seg ''TROY'' ''other'' 11 5000]"
  by (simp add: get_selected_score_records_def category_neq example_segments_def seg_def
      filtered_records_def py_sorted_def bin_rank_def label_rank_def dict_get_def order_map_def)

subsection \<open>Threshold and truncation\<close>

text \<open>
  Eleven segments: ten with 10 loans and index 5000, one with 20 loans and index 1000.
  With the category of the most concentrated segments, the segment with 20 loans is
  selected at threshold 20 and is not selected at the lower threshold 10, where the ten
  others fill the first ten places.
\<close>

theorem selection_monotone_counterexample:
  "(10::int) < 20
   \<and> seg ''DOVER'' ''$0 - $50K'' 20 1000
       \<in> set (get_selected_score_records crowded_segments 20 HIGH_HHI_SEGMENT)
   \<and> seg ''DOVER'' ''$0 - $50K'' 20 1000
       \<notin> set (get_selected_score_records crowded_segments 10 HIGH_HHI_SEGMENT)"
  by (simp add: get_selected_score_records_def crowded_segments_def seg_def
      filtered_records_def py_sorted_def)

text \<open>
  C3, as amended. For thresholds \<open>t < t'\<close>, every record selected at \<open>t'\<close> is selected at
  \<open>t\<close> when the category is neither of the two top-10 categories, or when at most ten
  records reach the threshold \<open>t\<close>, so that nothing is cut off.
\<close>

theorem selection_monotone_without_truncation:
  fixes score_records :: "('h::linorder) score_record list"
  assumes "t < t'"
    and "(market_category \<noteq> HIGH_HHI_SEGMENT \<and> market_category \<noteq> LOW_HHI_SEGMENT)
         \<or> length (filtered_records score_records t) \<le> 10"
  shows "set (get_selected_score_records score_records t' market_category)
           \<subseteq> set (get_selected_score_records score_records t market_category)"
proof -
  have "set (get_selected_score_records score_records t' market_category)
          \<subseteq> set (filtered_records score_records t')"
    by (rule set_selected_subset)
  also have "\<dots> \<subseteq> set (filtered_records score_records t)"
    using assms(1) by (intro set_filtered_mono) simp
  also have "\<dots> = set (get_selected_score_records score_records t market_category)"
    using assms(2) by (rule set_selected_all [symmetric])
  finally show ?thesis .
qed

theorem selection_monotone_without_truncation_witness:
  "set (get_selected_score_records crowded_segments 20 ALL_SEGMENT)
     \<subseteq> set (get_selected_score_records crowded_segments 10 ALL_SEGMENT)
   \<and> length (filtered_records example_segments 10) \<le> 10
   \<and> set (get_selected_score_records example_segments 12 HIGH_HHI_SEGMENT)
     \<subseteq> set (get_selected_score_records example_segments 10 HIGH_HHI_SEGMENT)
   \<and> get_selected_score_records example_segments 12 HIGH_HHI_SEGMENT
       = [seg ''DOVER'' ''$5M - $10M'' 15 10000, seg ''DOVER'' ''$0 - $50K'' 12 5000,
          seg ''SALEM'' ''other'' 30 2500]"
proof -
  have len: "length (filtered_records example_segments 10) \<le> 10"
    by (simp add: filtered_records_def example_segments_def seg_def)
  have a: "set (get_selected_score_records crowded_segments 20 ALL_SEGMENT)
     \<subseteq> set (get_selected_score_records crowded_segments 10 ALL_SEGMENT)"
    by (rule selection_monotone_without_truncation) (simp_all add: category_neq)
  have b: "set (get_selected_score_records example_segments 12 HIGH_HHI_SEGMENT)
     \<subseteq> set (get_selected_score_records example_segments 10 HIGH_HHI_SEGMENT)"
    by (rule selection_monotone_without_truncation) (simp_all add: len)
  have c: "get_selected_score_records example_segments 12 HIGH_HHI_SEGMENT
       = [seg ''DOVER'' ''$5M - $10M'' 15 10000, seg ''DOVER'' ''$0 - $50K'' 12 5000,
          seg ''SALEM'' ''other'' 30 2500]"
    by (simp add: get_selected_score_records_def example_segments_def seg_def
        filtered_records_def py_sorted_def)
  from a b c len show ?thesis by simp
qed

subsection \<open>The two top-10 categories\<close>

text \<open>
  C4. With the category of the most concentrated segments the result is the first ten
  elements of a list \<open>S\<close> that is a rearrangement of the records that reach the
  threshold, in descending order of \<open>hhi\<close>, where the records of each \<open>hhi\<close> value keep the
  order they have in the input; with the category of the most fragmented segments the
  same holds in ascending order.
\<close>

theorem top10_sorted_stable:
  fixes score_records :: "('h::linorder) score_record list"
  shows "(\<exists>S. get_selected_score_records score_records t HIGH_HHI_SEGMENT = take 10 S
            \<and> mset S = mset (filtered_records score_records t)
            \<and> sorted_wrt (\<lambda>a b. hhi a \<ge> hhi b) S
            \<and> (\<forall>h. filter (\<lambda>r. hhi r = h) S = filter (\<lambda>r. hhi r = h) (filtered_records score_records t)))
       \<and> (\<exists>S. get_selected_score_records score_records t LOW_HHI_SEGMENT = take 10 S
            \<and> mset S = mset (filtered_records score_records t)
            \<and> sorted_wrt (\<lambda>a b. hhi a \<le> hhi b) S
            \<and> (\<forall>h. filter (\<lambda>r. hhi r = h) S = filter (\<lambda>r. hhi r = h) (filtered_records score_records t)))"
proof (intro conjI)
  let ?F = "filtered_records score_records t"
  show "\<exists>S. get_selected_score_records score_records t HIGH_HHI_SEGMENT = take 10 S
            \<and> mset S = mset ?F \<and> sorted_wrt (\<lambda>a b. hhi a \<ge> hhi b) S
            \<and> (\<forall>h. filter (\<lambda>r. hhi r = h) S = filter (\<lambda>r. hhi r = h) ?F)"
    by (rule exI [of _ "py_sorted hhi True ?F"])
       (simp add: get_selected_score_records_def py_sorted_mset py_sorted_stable py_sorted_desc)
  have ne: "LOW_HHI_SEGMENT \<noteq> HIGH_HHI_SEGMENT"
    by (simp add: LOW_HHI_SEGMENT_def HIGH_HHI_SEGMENT_def)
  show "\<exists>S. get_selected_score_records score_records t LOW_HHI_SEGMENT = take 10 S
            \<and> mset S = mset ?F \<and> sorted_wrt (\<lambda>a b. hhi a \<le> hhi b) S
            \<and> (\<forall>h. filter (\<lambda>r. hhi r = h) S = filter (\<lambda>r. hhi r = h) ?F)"
    by (rule exI [of _ "py_sorted hhi False ?F"])
       (simp add: get_selected_score_records_def ne py_sorted_mset py_sorted_stable py_sorted_asc)
qed

theorem top10_sorted_stable_witness:
  "get_selected_score_records example_segments 10 HIGH_HHI_SEGMENT =
     [seg ''DOVER'' ''$5M - $10M'' 15 10000, seg ''DOVER'' ''$0 - $50K'' 12 5000,
      seg ''TROY'' ''other'' 11 5000, seg ''SALEM'' ''other'' 30 2500]
   \<and> get_selected_score_records example_segments 10 LOW_HHI_SEGMENT =
     [seg ''SALEM'' ''other'' 30 2500, seg ''DOVER'' ''$0 - $50K'' 12 5000,
      seg ''TROY'' ''other'' 11 5000, seg ''DOVER'' ''$5M - $10M'' 15 10000]
   \<and> length (get_selected_score_records crowded_segments 10 HIGH_HHI_SEGMENT) = 10
   \<and> (\<exists>S. get_selected_score_records crowded_segments 10 HIGH_HHI_SEGMENT = take 10 S
          \<and> mset S = mset (filtered_records crowded_segments 10))"
proof -
  have high: "get_selected_score_records example_segments 10 HIGH_HHI_SEGMENT =
     [seg ''DOVER'' ''$5M - $10M'' 15 10000, seg ''DOVER'' ''$0 - $50K'' 12 5000,
      seg ''TROY'' ''other'' 11 5000, seg ''SALEM'' ''other'' 30 2500]"
    by (simp add: get_selected_score_records_def example_segments_def seg_def
        filtered_records_def py_sorted_def)
  have low: "get_selected_score_records example_segments 10 LOW_HHI_SEGMENT =
     [seg ''SALEM'' ''other'' 30 2500, seg ''DOVER'' ''$0 - $50K'' 12 5000,
      seg ''TROY'' ''other'' 11 5000, seg ''DOVER'' ''$5M - $10M'' 15 10000]"
    by (simp add: get_selected_score_records_def example_segments_def seg_def
        filtered_records_def py_sorted_def category_neq)
  have len: "length (get_selected_score_records crowded_segments 10 HIGH_HHI_SEGMENT) = 10"
    by (simp add: get_selected_score_records_def crowded_segments_def seg_def
        filtered_records_def py_sorted_def)
  from top10_sorted_stable [of crowded_segments 10]
  have "\<exists>S. get_selected_score_records crowded_segments 10 HIGH_HHI_SEGMENT = take 10 S
          \<and> mset S = mset (filtered_records crowded_segments 10)"
    by blast
  with high low len show ?thesis by blast
qed

subsection \<open>All segments\<close>

text \<open>
  C5. With the category of all segments the result is a rearrangement of all the records
  that reach the threshold (nothing is cut off), in ascending order of the rank of their
  bin label, where the records of each rank keep their input order. The ranks run from 1
  for \<open>$5M - $10M\<close> down the eight known labels to 8 for \<open>$0 - $50K\<close>; every other label
  has rank 999, so no record with a known label comes after a record with an unknown one.
\<close>

theorem all_segments_canonical_order:
  fixes score_records :: "('h::linorder) score_record list"
  shows "mset (get_selected_score_records score_records t ALL_SEGMENT)
           = mset (filtered_records score_records t)
       \<and> sorted_wrt (\<lambda>a b. bin_rank a \<le> bin_rank b)
           (get_selected_score_records score_records t ALL_SEGMENT)
       \<and> (\<forall>k. filter (\<lambda>r. bin_rank r = k) (get_selected_score_records score_records t ALL_SEGMENT)
              = filter (\<lambda>r. bin_rank r = k) (filtered_records score_records t))
       \<and> canonical_bins = [''$5M - $10M'', ''$2.5M - $5M'', ''$1M - $2.5M'', ''$500K - $1M'',
            ''$250K - $500K'', ''$100K - $250K'', ''$50K - $100K'', ''$0 - $50K'']
       \<and> map label_rank canonical_bins = [1, 2, 3, 4, 5, 6, 7, 8]
       \<and> (\<forall>l. l \<notin> set canonical_bins \<longrightarrow> label_rank l = 999)
       \<and> (\<forall>i j. i < j \<and> j < length (get_selected_score_records score_records t ALL_SEGMENT)
              \<and> loan_amount_bin (get_selected_score_records score_records t ALL_SEGMENT ! i)
                  \<notin> set canonical_bins
            \<longrightarrow> loan_amount_bin (get_selected_score_records score_records t ALL_SEGMENT ! j)
                  \<notin> set canonical_bins)"
proof -
  let ?S = "get_selected_score_records score_records t ALL_SEGMENT"
  let ?F = "filtered_records score_records t"
  have S: "?S = py_sorted bin_rank False ?F"
    by (rule selected_other) (rule category_neq)+
  have srt: "sorted_wrt (\<lambda>a b. bin_rank a \<le> bin_rank b) ?S"
    unfolding S by (rule py_sorted_asc)
  have last: "loan_amount_bin (?S ! j) \<notin> set canonical_bins"
    if "i < j" "j < length ?S" "loan_amount_bin (?S ! i) \<notin> set canonical_bins" for i j
  proof
    assume known: "loan_amount_bin (?S ! j) \<in> set canonical_bins"
    from srt that(1,2) have "bin_rank (?S ! i) \<le> bin_rank (?S ! j)"
      by (rule sorted_wrt_nth_less)
    moreover have "bin_rank (?S ! i) = 999"
      using that(3) by (simp add: bin_rank_def rank_unknown)
    moreover have "bin_rank (?S ! j) < 999"
      using known by (simp add: bin_rank_def rank_known_lt)
    ultimately show False by simp
  qed
  have "mset ?S = mset ?F" unfolding S by (rule py_sorted_mset)
  moreover have "\<forall>k. filter (\<lambda>r. bin_rank r = k) ?S = filter (\<lambda>r. bin_rank r = k) ?F"
    unfolding S by (simp add: py_sorted_stable)
  ultimately show ?thesis
    using srt last canonical_bins_eq rank_known rank_unknown by blast
qed

theorem all_segments_canonical_order_witness:
  "''other'' \<notin> set canonical_bins \<and> label_rank ''other'' = 999
   \<and> get_selected_score_records example_segments 10 ALL_SEGMENT =
       [seg ''DOVER'' ''$5M - $10M'' 15 10000, seg ''DOVER'' ''$0 - $50K'' 12 5000,
        seg ''SALEM'' ''other'' 30 2500, seg ''TROY'' ''other'' 11 5000]
   \<and> loan_amount_bin (get_selected_score_records example_segments 10 ALL_SEGMENT ! 3)
        \<notin> set canonical_bins"
proof -
  note inst = all_segments_canonical_order [of example_segments 10]
  have unknown: "''other'' \<notin> set canonical_bins"
    by (simp add: canonical_bins_def order_map_def)
  from inst unknown have "label_rank ''other'' = 999" by blast
  moreover have "(2::nat) < 3 \<and> 3 < length (get_selected_score_records example_segments 10 ALL_SEGMENT)
      \<and> loan_amount_bin (get_selected_score_records example_segments 10 ALL_SEGMENT ! 2)
          \<notin> set canonical_bins"
    using unknown by (simp add: sel_all_example seg_def)
  with inst have "loan_amount_bin (get_selected_score_records example_segments 10 ALL_SEGMENT ! 3)
        \<notin> set canonical_bins" by blast
  ultimately show ?thesis using unknown sel_all_example by simp
qed

subsection \<open>Empty selection\<close>

text \<open>
  When no record reaches the threshold, the selector returns the empty list for every
  category; and when that threshold is the one the slider returned, the page shows the
  notice \<open>no_data_selected\<close> and the footer, and nothing else. The slider returns only
  on a list with at least one score record.
\<close>

lemma empty_selection_propagates:
  fixes score_records :: "('h::linorder) score_record list"
  assumes "\<forall>r\<in>set score_records. \<not> bin_num_loans r \<ge> t"
  shows "get_selected_score_records score_records t market_category = []
       \<and> (\<forall>st_slider st_toggle. show_slider st_slider score_records = Inr t \<longrightarrow>
            render_page st_slider st_toggle score_records market_category
              = Inr [ShowStInfo ''no_data_selected'', ShowDefaultFooter])"
proof -
  have "filtered_records score_records t = []"
    using assms by (intro filtered_empty) auto
  then have "get_selected_score_records score_records t market_category = []"
    by (simp add: get_selected_score_records_def py_sorted_def)
  then show ?thesis by (simp add: render_page_def)
qed

lemma empty_selection_propagates_example:
  "\<not> bin_num_loans (seg ''DOVER'' ''$0 - $50K'' 12 5000) \<ge> 20
   \<and> show_slider (\<lambda>min_value max_value default_value step. max_value)
        [seg ''DOVER'' ''$0 - $50K'' 12 5000] = Inr 20
   \<and> get_selected_score_records [seg ''DOVER'' ''$0 - $50K'' 12 5000] 20 HIGH_HHI_SEGMENT = []
   \<and> render_page (\<lambda>min_value max_value default_value step. max_value) True
        [seg ''DOVER'' ''$0 - $50K'' 12 5000] HIGH_HHI_SEGMENT
       = Inr [ShowStInfo ''no_data_selected'', ShowDefaultFooter]"
proof -
  have h: "\<forall>r\<in>set [seg ''DOVER'' ''$0 - $50K'' 12 5000]. \<not> bin_num_loans r \<ge> 20"
    by (simp add: seg_def)
  have s: "show_slider (\<lambda>min_value max_value default_value step. max_value)
        [seg ''DOVER'' ''$0 - $50K'' 12 5000] = Inr 20"
    by (simp add: show_slider_def seg_def Let_def)
  have n: "\<not> bin_num_loans (seg ''DOVER'' ''$0 - $50K'' 12 5000) \<ge> 20"
    by (simp add: seg_def)
  from empty_selection_propagates [OF h, of HIGH_HHI_SEGMENT] n s show ?thesis by blast
qed

text \<open>
  On an empty list of score records the slider's \<^verbatim>\<open>max(...)\<close> (line 251) raises before
  the selection is made.
\<close>

lemma show_slider_no_score_records: "show_slider st_slider [] = Inl ValueError"
  by (simp add: show_slider_def)

subsection \<open>Unknown categories\<close>

text \<open>
  C10. For every category string other than the two top-10 titles, the selector returns
  what it returns for the title of all segments: all the records that reach the
  threshold, none cut off, in the order of the ranks of their bin labels.
\<close>

theorem unknown_category_is_all:
  fixes score_records :: "('h::linorder) score_record list"
  assumes "market_category \<noteq> HIGH_HHI_SEGMENT" and "market_category \<noteq> LOW_HHI_SEGMENT"
  shows "get_selected_score_records score_records t market_category
           = get_selected_score_records score_records t ALL_SEGMENT
       \<and> length (get_selected_score_records score_records t market_category)
           = length (filtered_records score_records t)
       \<and> sorted_wrt (\<lambda>a b. bin_rank a \<le> bin_rank b)
           (get_selected_score_records score_records t market_category)"
proof -
  have "get_selected_score_records score_records t market_category
          = py_sorted bin_rank False (filtered_records score_records t)"
    using assms by (rule selected_other)
  moreover have "get_selected_score_records score_records t ALL_SEGMENT
          = py_sorted bin_rank False (filtered_records score_records t)"
    by (rule selected_other) (rule category_neq)+
  moreover have "length (py_sorted bin_rank False (filtered_records score_records t))
          = length (filtered_records score_records t)"
    by (simp add: py_sorted_def)
  ultimately show ?thesis by (simp add: py_sorted_asc)
qed

theorem unknown_category_is_all_witness:
  "''no such category'' \<noteq> HIGH_HHI_SEGMENT \<and> ''no such category'' \<noteq> LOW_HHI_SEGMENT
   \<and> get_selected_score_records example_segments 10 ''no such category'' =
       [seg ''DOVER'' ''$5M - $10M'' 15 10000, seg ''DOVER'' ''$0 - $50K'' 12 5000,
        seg ''SALEM'' ''other'' 30 2500, seg ''TROY'' ''other'' 11 5000]"
proof -
  have h: "''no such category'' \<noteq> HIGH_HHI_SEGMENT" "''no such category'' \<noteq> LOW_HHI_SEGMENT"
    by (simp_all add: HIGH_HHI_SEGMENT_def LOW_HHI_SEGMENT_def)
  from unknown_category_is_all [OF h, of example_segments 10] h show ?thesis
    by (simp add: sel_all_example)
qed

section \<open>Properties of the scorer\<close>

subsection \<open>The groups of a bin through the stages of the table\<close>

lemma group_of_map:
  "(\<And>x. row_loan_amount_bin (f x) = row_loan_amount_bin x) \<Longrightarrow>
   group_of b (map f xs) = map f (group_of b xs)"
  by (simp add: group_of_def filter_map o_def)

lemma group_of_with_total:
  "group_of b (add_bin_num_loans rows) =
     map (\<lambda>r. \<lparr>lender = lender r, row_loan_amount_bin = row_loan_amount_bin r,
               num_loans = num_loans r, row_bin_num_loans = bin_total b rows\<rparr>) (group_of b rows)"
  by (simp add: add_bin_num_loans_def group_of_def filter_map o_def bin_total_def)

lemma group_of_with_pct:
  "group_of b (add_lender_num_loans_pct (add_bin_num_loans rows)) =
     map (\<lambda>r. \<lparr>lender = lender r, row_loan_amount_bin = row_loan_amount_bin r,
               num_loans = num_loans r, row_bin_num_loans = bin_total b rows,
               lender_num_loans_pct = pd_mul (pd_truediv (num_loans r) (bin_total b rows)) 100\<rparr>)
       (group_of b rows)"
proof -
  have "group_of b (add_lender_num_loans_pct (add_bin_num_loans rows)) =
        map (\<lambda>r. \<lparr>lender = lender r, row_loan_amount_bin = row_loan_amount_bin r,
               num_loans = num_loans r, row_bin_num_loans = row_bin_num_loans r,
               lender_num_loans_pct =
                 pd_mul (pd_truediv (num_loans r) (row_bin_num_loans r)) 100\<rparr>)
          (group_of b (add_bin_num_loans rows))"
    unfolding add_lender_num_loans_pct_def by (rule group_of_map) simp
  then show ?thesis by (simp add: group_of_with_total o_def)
qed

lemma group_of_keep_min:
  "group_of b (keep_min_bin_num_loans (add_lender_num_loans_pct (add_bin_num_loans rows))) =
     (if BIN_NUM_LOANS_MIN_THREASHOLD \<le> int (bin_total b rows)
      then group_of b (add_lender_num_loans_pct (add_bin_num_loans rows)) else [])"
proof -
  let ?T = "add_lender_num_loans_pct (add_bin_num_loans rows)"
  have "group_of b (keep_min_bin_num_loans ?T)
        = filter (\<lambda>r. BIN_NUM_LOANS_MIN_THREASHOLD \<le> int (row_bin_num_loans r)) (group_of b ?T)"
    by (simp add: keep_min_bin_num_loans_def group_of_def conj_commute)
  also have "\<dots> = (if BIN_NUM_LOANS_MIN_THREASHOLD \<le> int (bin_total b rows)
      then group_of b ?T else [])"
    by (simp add: group_of_with_pct filter_map o_def)
  finally show ?thesis .
qed

lemma pct_finite:
  "N \<noteq> 0 \<Longrightarrow> pd_mul (pd_truediv n N) 100 = Fin (real n / real N * 100)"
  by (simp add: pd_truediv_def)

lemma group_of_add_std_dev:
  "group_of b (add_std_dev tbl) =
     map (\<lambda>r. \<lparr>lender = lender r, row_loan_amount_bin = row_loan_amount_bin r,
               num_loans = num_loans r, row_bin_num_loans = row_bin_num_loans r,
               lender_num_loans_pct = lender_num_loans_pct r,
               row_bin_num_loans_pct_std_dev =
                 pd_std (map lender_num_loans_pct (group_of b tbl))\<rparr>) (group_of b tbl)"
  by (simp add: add_std_dev_def group_of_def filter_map o_def)

lemma pcts_of_kept_group:
  assumes "BIN_NUM_LOANS_MIN_THREASHOLD \<le> int (bin_total b rows)"
  shows "map lender_num_loans_pct
           (group_of b (keep_min_bin_num_loans (add_lender_num_loans_pct (add_bin_num_loans rows))))
         = map Fin (lender_share_pct (group_of b rows))"
proof -
  have "bin_total b rows \<noteq> 0"
    using assms by (auto simp add: BIN_NUM_LOANS_MIN_THREASHOLD_def)
  then show ?thesis
    using assms
    by (simp add: group_of_keep_min group_of_with_pct o_def pct_finite lender_share_pct_def
        bin_total_def)
qed

lemma group_of_scored_table_small:
  "\<not> BIN_NUM_LOANS_MIN_THREASHOLD \<le> int (bin_total b rows) \<Longrightarrow>
   group_of b (scored_table rows) = []"
  by (simp add: scored_table_def group_of_add_std_dev group_of_keep_min)

lemma group_of_scored_table_first:
  assumes "group_of b (scored_table rows) = first # rest"
  shows "BIN_NUM_LOANS_MIN_THREASHOLD \<le> int (bin_total b rows)"
    and "row_bin_num_loans first = bin_total b rows"
    and "row_bin_num_loans_pct_std_dev first = pd_std (map Fin (lender_share_pct (group_of b rows)))"
    and "map lender_num_loans_pct (group_of b (scored_table rows))
           = map Fin (lender_share_pct (group_of b rows))"
proof -
  show big: "BIN_NUM_LOANS_MIN_THREASHOLD \<le> int (bin_total b rows)"
    using assms group_of_scored_table_small [of b rows] by auto
  let ?K = "keep_min_bin_num_loans (add_lender_num_loans_pct (add_bin_num_loans rows))"
  have first_in: "first \<in> set (group_of b (scored_table rows))"
    using assms by simp
  then obtain r where r: "r \<in> set (group_of b ?K)"
    and first: "first = \<lparr>lender = lender r, row_loan_amount_bin = row_loan_amount_bin r,
               num_loans = num_loans r, row_bin_num_loans = row_bin_num_loans r,
               lender_num_loans_pct = lender_num_loans_pct r,
               row_bin_num_loans_pct_std_dev = pd_std (map lender_num_loans_pct (group_of b ?K))\<rparr>"
    by (auto simp add: scored_table_def group_of_add_std_dev)
  from r big have "row_bin_num_loans r = bin_total b rows"
    by (auto simp add: group_of_keep_min group_of_with_pct)
  then show "row_bin_num_loans first = bin_total b rows"
    by (simp add: first)
  show "row_bin_num_loans_pct_std_dev first = pd_std (map Fin (lender_share_pct (group_of b rows)))"
    by (simp add: first pcts_of_kept_group [OF big])
  have "map lender_num_loans_pct (group_of b (scored_table rows))
          = map lender_num_loans_pct (group_of b ?K)"
    by (simp add: scored_table_def group_of_add_std_dev o_def)
  then show "map lender_num_loans_pct (group_of b (scored_table rows))
           = map Fin (lender_share_pct (group_of b rows))"
    by (simp add: pcts_of_kept_group [OF big])
qed

lemma with_pct_member:
  assumes "q \<in> set (add_lender_num_loans_pct (add_bin_num_loans rows))"
  shows "\<exists>r\<in>set rows. num_loans q = num_loans r
           \<and> row_bin_num_loans q = bin_total (row_loan_amount_bin r) rows
           \<and> lender_num_loans_pct q
               = pd_mul (pd_truediv (num_loans r) (bin_total (row_loan_amount_bin r) rows)) 100"
  using assms
  by (auto simp add: add_lender_num_loans_pct_def add_bin_num_loans_def bin_total_def)

lemma num_loans_le_total:
  assumes "r \<in> set rows"
  shows "num_loans r \<le> bin_total (row_loan_amount_bin r) rows"
proof -
  have "r \<in> set (group_of (row_loan_amount_bin r) rows)"
    using assms by (simp add: group_of_def)
  then have "num_loans r \<in> set (map num_loans (group_of (row_loan_amount_bin r) rows))"
    by simp
  then show ?thesis
    unfolding bin_total_def by (simp add: member_le_sum_list)
qed

subsection \<open>Sums and deviations of finite values\<close>

lemma finite_values_Fin: "finite_values (map Fin xs) = xs"
  by (induction xs) simp_all

lemma pd_sum_Fin: "pd_sum (map Fin xs) = Fin (sum_list xs)"
  by (auto simp add: pd_sum_def finite_values_Fin)

lemma pd_pow2_Fin: "map pd_pow2 (map Fin xs) = map Fin (map (\<lambda>x. x ^ 2) xs)"
  by simp

lemma pd_std_Fin:
  "pd_std (map Fin xs) = (if length xs < 2 then NaN else Fin (sample_std xs))"
proof -
  have "filter (\<lambda>x. x \<noteq> NaN) (map Fin xs) = map Fin xs"
    by (induction xs) simp_all
  then show ?thesis
    by (auto simp add: pd_std_def finite_values_Fin)
qed

subsection \<open>The loops in closed form\<close>

lemma series_getitem_hhi_by_bin:
  "b \<in> set (group_keys rows) \<Longrightarrow>
   series_getitem (hhi_by_bin rows) b
     = Inr (pd_sum (map pd_pow2 (map lender_num_loans_pct (group_of b rows))))"
  by (simp add: series_getitem_def hhi_by_bin_def map_of_map_restrict)

lemma append_bin_records_closed:
  assumes "set bins \<subseteq> set (group_keys rows)"
  shows "append_bin_records cty rows (hhi_by_bin rows) bins acc
           = Inr (acc @ concat (map (bin_records cty rows) bins))"
  using assms
proof (induction bins arbitrary: acc)
  case Nil
  then show ?case by simp
next
  case (Cons b bins)
  then have b: "b \<in> set (group_keys rows)" and rest: "set bins \<subseteq> set (group_keys rows)"
    by simp_all
  show ?case
  proof (cases "group_of b rows")
    case Nil
    then show ?thesis
      using Cons.IH [OF rest] by (simp add: bin_records_def)
  next
    case (Cons first others)
    then show ?thesis
      using Cons.IH [OF rest] series_getitem_hhi_by_bin [OF b]
      by (simp add: bin_records_def)
  qed
qed

lemma append_city_records_closed:
  "append_city_records cty lrows acc = Inr (acc @ city_records cty lrows)"
  by (simp add: append_city_records_def city_records_def Let_def append_bin_records_closed)

lemma score_cities_closed:
  "score_cities get_rows ctd acc
     = Inr (acc @ concat (map (\<lambda>(cty, city_df). city_records cty (get_rows city_df)) ctd))"
  by (induction ctd arbitrary: acc) (auto simp add: append_city_records_closed)

lemma dict_getitems_total:
  "set ks \<subseteq> fst ` set d \<Longrightarrow> \<exists>vs. dict_getitems d ks = Inr vs"
proof (induction ks)
  case Nil
  then show ?case by simp
next
  case (Cons k ks)
  then have "k \<in> fst ` set d" by simp
  then obtain v where "map_of d k = Some v"
    by (metis map_of_eq_None_iff not_Some_eq)
  moreover from Cons obtain vs where "dict_getitems d ks = Inr vs" by auto
  ultimately show ?case by simp
qed

lemma bin_labels_total: "\<exists>labels. bin_labels BIN_EDGE_TO_LABEL = Inr labels"
  unfolding bin_labels_def by (rule dict_getitems_total) simp

lemma get_score_records_closed:
  assumes "bin_labels BIN_EDGE_TO_LABEL = Inr labels"
  shows "get_score_records glb BIN_EDGE_TO_LABEL df cities
           = Inr (concat (map (\<lambda>(cty, city_df).
                city_records cty (glb city_df (bin_edges BIN_EDGE_TO_LABEL) labels))
                (city_to_df df cities)))"
  by (simp add: get_score_records_def assms score_cities_closed)

lemma city_records_member:
  assumes "r \<in> set (city_records cty lrows)"
  shows "city r = cty"
    and "BIN_NUM_LOANS_MIN_THREASHOLD \<le> int (sum_list (map num_loans (group_of (loan_amount_bin r) lrows)))"
    and "bin_num_loans r = int (sum_list (map num_loans (group_of (loan_amount_bin r) lrows)))"
    and "bin_num_loans_pct_std_dev r
           = pd_std (map Fin (lender_share_pct (group_of (loan_amount_bin r) lrows)))"
    and "hhi r = Fin (sum_list (map (\<lambda>s. s ^ 2) (lender_share_pct (group_of (loan_amount_bin r) lrows))))"
proof -
  from assms obtain b where mem: "r \<in> set (bin_records cty (scored_table lrows) b)"
    by (auto simp add: city_records_def)
  then have "group_of b (scored_table lrows) \<noteq> []"
    by (auto simp add: bin_records_def)
  then obtain first rest where g: "group_of b (scored_table lrows) = first # rest"
    by (cases "group_of b (scored_table lrows)") auto
  have r: "r = \<lparr>city = cty, loan_amount_bin = b,
            bin_num_loans = int (row_bin_num_loans first),
            bin_num_loans_pct_std_dev = row_bin_num_loans_pct_std_dev first,
            hhi = pd_sum (map pd_pow2 (map lender_num_loans_pct (group_of b (scored_table lrows))))\<rparr>"
    using mem unfolding bin_records_def by (simp add: g)
  note facts = group_of_scored_table_first [OF g]
  show "city r = cty" by (simp add: r)
  show "BIN_NUM_LOANS_MIN_THREASHOLD \<le> int (sum_list (map num_loans (group_of (loan_amount_bin r) lrows)))"
    using facts(1) by (simp add: r bin_total_def)
  show "bin_num_loans r = int (sum_list (map num_loans (group_of (loan_amount_bin r) lrows)))"
    using facts(2) by (simp add: r bin_total_def)
  show "bin_num_loans_pct_std_dev r
           = pd_std (map Fin (lender_share_pct (group_of (loan_amount_bin r) lrows)))"
    using facts(3) by (simp add: r)
  show "hhi r = Fin (sum_list (map (\<lambda>s. s ^ 2) (lender_share_pct (group_of (loan_amount_bin r) lrows))))"
    unfolding r using facts(4) by (simp only: score_record.simps pd_pow2_Fin pd_sum_Fin)
qed

lemma get_score_records_member:
  assumes "bin_labels BIN_EDGE_TO_LABEL = Inr labels"
    and "get_score_records glb BIN_EDGE_TO_LABEL df cities = Inr recs"
    and "r \<in> set recs"
  shows "r \<in> set (city_records (city r)
           (glb (city_df_of df cities (city r)) (bin_edges BIN_EDGE_TO_LABEL) labels))"
proof -
  from assms obtain cty city_df where in_ctd: "(cty, city_df) \<in> set (city_to_df df cities)"
    and r: "r \<in> set (city_records cty (glb city_df (bin_edges BIN_EDGE_TO_LABEL) labels))"
    by (auto simp add: get_score_records_closed)
  from in_ctd have "city_df = city_df_of df cities cty"
    by (auto simp add: city_to_df_def)
  moreover from r have "city r = cty" by (rule city_records_member(1))
  ultimately show ?thesis using r by simp
qed

lemma scored_total:
  "\<exists>labels recs. bin_labels BIN_EDGE_TO_LABEL = Inr labels
     \<and> get_score_records glb BIN_EDGE_TO_LABEL df cities = Inr recs"
  using bin_labels_total [of BIN_EDGE_TO_LABEL] by (auto simp add: get_score_records_closed)

lemma scored_member:
  assumes "bin_labels BIN_EDGE_TO_LABEL = Inr labels"
    and "get_score_records glb BIN_EDGE_TO_LABEL df cities = Inr recs"
    and "r \<in> set recs"
  defines "g \<equiv> segment_of glb (bin_edges BIN_EDGE_TO_LABEL) labels df cities r"
  shows "BIN_NUM_LOANS_MIN_THREASHOLD \<le> int (sum_list (map num_loans g))"
    and "bin_num_loans r = int (sum_list (map num_loans g))"
    and "bin_num_loans_pct_std_dev r = pd_std (map Fin (lender_share_pct g))"
    and "hhi r = Fin (segment_hhi g)"
  using city_records_member [OF get_score_records_member [OF assms(1-3)]]
  unfolding g_def segment_of_def segment_hhi_def by simp_all

subsection \<open>Sums of squares of loan counts\<close>

lemma sum_squares_le: "sum_list (map (\<lambda>n. n ^ 2) ns) \<le> (sum_list ns) ^ 2" for ns :: "nat list"
proof (induction ns)
  case Nil
  then show ?case by simp
next
  case (Cons n ns)
  have "(n + sum_list ns) ^ 2 = n ^ 2 + 2 * n * sum_list ns + (sum_list ns) ^ 2"
    by (simp add: power2_eq_square algebra_simps)
  with Cons show ?case by simp
qed

lemma sum_squares_zero: "sum_list ns = 0 \<Longrightarrow> sum_list (map (\<lambda>n. n ^ 2) ns) = 0" for ns :: "nat list"
  by (induction ns) simp_all

lemma filter_eq_total_nil:
  "sum_list ns < N \<Longrightarrow> filter (\<lambda>n. n = N) ns = []" for ns :: "nat list"
proof (induction ns)
  case Nil
  then show ?case by simp
next
  case (Cons n ns)
  then show ?case by simp
qed

lemma sum_squares_eq_iff:
  fixes ns :: "nat list"
  assumes "0 < sum_list ns"
  shows "sum_list (map (\<lambda>n. n ^ 2) ns) = (sum_list ns) ^ 2
           \<longleftrightarrow> length (filter (\<lambda>n. n = sum_list ns) ns) = 1"
  using assms
proof (induction ns)
  case Nil
  then show ?case by simp
next
  case (Cons n ns)
  let ?S = "sum_list ns"
  have expand: "(n + ?S) ^ 2 = n ^ 2 + 2 * n * ?S + ?S ^ 2"
    by (simp add: power2_eq_square algebra_simps)
  consider (zero_head) "n = 0" | (zero_tail) "0 < n" "?S = 0" | (both) "0 < n" "0 < ?S"
    by linarith
  then show ?case
  proof cases
    case zero_head
    with Cons.prems have S: "0 < ?S" by simp
    then have "n \<noteq> n + ?S" by linarith
    then have "filter (\<lambda>m. m = n + ?S) (n # ns) = filter (\<lambda>m. m = n + ?S) ns"
      by simp
    moreover have "n + ?S = ?S" "n ^ 2 + sum_list (map (\<lambda>n. n ^ 2) ns) = sum_list (map (\<lambda>n. n ^ 2) ns)"
      using zero_head by simp_all
    ultimately show ?thesis
      using Cons.IH [OF S] by (simp only: list.map sum_list.Cons)
  next
    case zero_tail
    have "?S < n" using zero_tail by linarith
    then have "filter (\<lambda>m. m = n) ns = []"
      by (rule filter_eq_total_nil)
    moreover have "sum_list (map (\<lambda>n. n ^ 2) ns) = 0"
      using zero_tail(2) by (rule sum_squares_zero)
    ultimately show ?thesis
      using zero_tail(2) by (simp del: sum_list_eq_0_iff)
  next
    case both
    have "?S < n + ?S" using both by linarith
    then have "filter (\<lambda>m. m = n + ?S) ns = []"
      by (rule filter_eq_total_nil)
    moreover have "n \<noteq> n + ?S" using both by linarith
    ultimately have rhs_false: "length (filter (\<lambda>m. m = n + ?S) (n # ns)) \<noteq> 1"
      by simp
    have "sum_list (map (\<lambda>n. n ^ 2) ns) \<le> ?S ^ 2"
      by (rule sum_squares_le)
    moreover have "0 < n * ?S" using both by simp
    ultimately have lhs_false: "n ^ 2 + sum_list (map (\<lambda>n. n ^ 2) ns) \<noteq> (n + ?S) ^ 2"
      using expand by linarith
    show ?thesis
      unfolding list.map sum_list.Cons using lhs_false rhs_false by blast
  qed
qed

lemma sum_squares_pos: "0 < sum_list ns \<Longrightarrow> 0 < sum_list (map (\<lambda>n. n ^ 2) ns)" for ns :: "nat list"
  by (induction ns) auto

lemma shares_sum:
  "sum_list (map (\<lambda>q. real (num_loans q) / N * 100) g)
     = real (sum_list (map num_loans g)) / N * 100"
  by (induction g) (simp_all add: add_divide_distrib distrib_right)

lemma shares_sq_sum:
  "sum_list (map (\<lambda>s. s ^ 2) (map (\<lambda>q. real (num_loans q) / N * 100) g))
     = 10000 * real (sum_list (map (\<lambda>n. n ^ 2) (map num_loans g))) / N ^ 2"
proof (induction g)
  case Nil
  then show ?case by simp
next
  case (Cons q g)
  have "(real (num_loans q) / N * 100) ^ 2 = 10000 * real ((num_loans q) ^ 2) / N ^ 2"
    by (simp add: power_mult_distrib power_divide)
  with Cons show ?case
    by (simp add: add_divide_distrib distrib_left)
qed

lemma share_pct_sum:
  assumes "0 < sum_list (map num_loans g)"
  shows "sum_list (lender_share_pct g) = 100"
proof -
  have "sum_list (lender_share_pct g)
          = real (sum_list (map num_loans g)) / real (sum_list (map num_loans g)) * 100"
    unfolding lender_share_pct_def by (rule shares_sum)
  also have "\<dots> = 100"
  proof -
    have "real (sum_list (map num_loans g)) \<noteq> 0"
      using assms by (simp del: sum_list_eq_0_iff)
    then show ?thesis by (simp del: sum_list_eq_0_iff of_nat_eq_0_iff)
  qed
  finally show ?thesis .
qed

lemma length_filter_map: "length (filter P (map f xs)) = length (filter (\<lambda>x. P (f x)) xs)"
  by (simp add: filter_map o_def)

lemma hhi_bounds:
  assumes pos: "0 < sum_list (map num_loans g)"
  defines "H \<equiv> sum_list (map (\<lambda>s. s ^ 2) (lender_share_pct g))"
  shows "0 < H" and "H \<le> 10000"
    and "H = 10000 \<longleftrightarrow> length (filter (\<lambda>s. s = 100) (lender_share_pct g)) = 1"
proof -
  let ?ns = "map num_loans g"
  define N where "N = sum_list ?ns"
  define Q where "Q = sum_list (map (\<lambda>n. n ^ 2) ?ns)"
  have Npos: "0 < real N" using pos by (simp add: N_def)
  have H: "H = 10000 * real Q / (real N) ^ 2"
    unfolding H_def lender_share_pct_def N_def Q_def by (rule shares_sq_sum)
  have "0 < Q" unfolding Q_def using pos by (rule sum_squares_pos)
  then have Qpos: "0 < real Q" by simp
  have "Q \<le> N ^ 2" unfolding Q_def N_def by (rule sum_squares_le)
  then have Qle: "real Q \<le> (real N) ^ 2"
    by (metis of_nat_le_iff of_nat_power)
  have N2pos: "0 < (real N) ^ 2" using Npos by simp
  show "0 < H" unfolding H using Qpos N2pos by simp
  show "H \<le> 10000" unfolding H using Qle N2pos by (simp add: field_simps)
  have "H = 10000 \<longleftrightarrow> real Q = (real N) ^ 2"
    unfolding H using N2pos by (simp add: field_simps)
  also have "\<dots> \<longleftrightarrow> Q = N ^ 2"
    by (metis of_nat_eq_iff of_nat_power)
  also have "\<dots> \<longleftrightarrow> length (filter (\<lambda>n. n = N) ?ns) = 1"
    unfolding Q_def N_def by (rule sum_squares_eq_iff [OF pos])
  also have "length (filter (\<lambda>n. n = N) ?ns) = length (filter (\<lambda>s. s = 100) (lender_share_pct g))"
  proof -
    have "real (num_loans q) / real N * 100 = 100 \<longleftrightarrow> num_loans q = N" for q
      using Npos by (simp add: field_simps)
    then have eq: "(\<lambda>q. real (num_loans q) / real N * 100 = 100) = (\<lambda>q. num_loans q = N)"
      by (intro ext)
    have "length (filter (\<lambda>s. s = 100) (lender_share_pct g))
            = length (filter (\<lambda>q. real (num_loans q) / real N * 100 = 100) g)"
      unfolding lender_share_pct_def N_def by (rule length_filter_map)
    also have "\<dots> = length (filter (\<lambda>q. num_loans q = N) g)"
      by (simp only: eq)
    also have "\<dots> = length (filter (\<lambda>n. n = N) ?ns)"
      by (rule length_filter_map [symmetric])
    finally show ?thesis by (rule sym)
  qed
  finally show "H = 10000 \<longleftrightarrow> length (filter (\<lambda>s. s = 100) (lender_share_pct g)) = 1" .
qed

subsection \<open>The scorer on the example\<close>

lemma example_labels:
  "bin_labels example_bin_table = Inr [''$0 - $50K'', ''$50K - $100K'', ''$100K - $250K'']"
  by (simp add: bin_labels_def example_bin_table_def)

lemma example_city_to_df:
  "city_to_df dover_loans [''DOVER''] = [(''DOVER'', [\<lparr>loan_city = ''DOVER'', loan_lender = ''A'', loanAmount = Some 120000\<rparr>])]"
  by (simp add: city_to_df_def dover_loans_def city_df_of_def)

lemma example_scored_table_groups:
  "group_of ''$0 - $50K'' (scored_table dover_rows) =
     [\<lparr>lender = ''A'', row_loan_amount_bin = ''$0 - $50K'', num_loans = 10,
       row_bin_num_loans = 10, lender_num_loans_pct = Fin 100,
       row_bin_num_loans_pct_std_dev = NaN\<rparr>]"
  "group_of ''$50K - $100K'' (scored_table dover_rows) = []"
  "group_of ''$5M - $10M'' (scored_table dover_rows) = []"
  "group_of ''$100K - $250K'' (scored_table dover_rows) =
     [\<lparr>lender = ''A'', row_loan_amount_bin = ''$100K - $250K'', num_loans = 8,
       row_bin_num_loans = 12, lender_num_loans_pct = Fin (200 / 3),
       row_bin_num_loans_pct_std_dev = Fin (sqrt (5000 / 9))\<rparr>,
      \<lparr>lender = ''B'', row_loan_amount_bin = ''$100K - $250K'', num_loans = 4,
       row_bin_num_loans = 12, lender_num_loans_pct = Fin (100 / 3),
       row_bin_num_loans_pct_std_dev = Fin (sqrt (5000 / 9))\<rparr>]"
  by (simp_all add: scored_table_def add_std_dev_def keep_min_bin_num_loans_def
      add_lender_num_loans_pct_def add_bin_num_loans_def group_of_def dover_rows_def
      pd_truediv_def pd_std_def sample_std_def BIN_NUM_LOANS_MIN_THREASHOLD_def power2_eq_square)

lemma example_keys_scored:
  "group_keys (scored_table dover_rows) = [''$0 - $50K'', ''$100K - $250K'']"
  by (simp add: scored_table_def add_std_dev_def keep_min_bin_num_loans_def
      add_lender_num_loans_pct_def add_bin_num_loans_def group_of_def dover_rows_def
      group_keys_def BIN_NUM_LOANS_MIN_THREASHOLD_def)

lemma example_scores:
  "get_score_records example_helper example_bin_table dover_loans [''DOVER'']
     = Inr [dover_small, dover_mid]"
proof -
  have "city_records ''DOVER'' dover_rows = [dover_small, dover_mid]"
    unfolding city_records_def
    by (simp add: example_keys_scored bin_records_def example_scored_table_groups
        pd_sum_def dover_small_def dover_mid_def power2_eq_square)
  then show ?thesis
    by (simp add: get_score_records_closed [OF example_labels] example_city_to_df
        example_helper_def)
qed

lemma example_segments_of:
  "segment_of example_helper (bin_edges example_bin_table)
      [''$0 - $50K'', ''$50K - $100K'', ''$100K - $250K''] dover_loans [''DOVER''] dover_small
     = [\<lparr>lender = ''A'', row_loan_amount_bin = ''$0 - $50K'', num_loans = 10\<rparr>]"
  "segment_of example_helper (bin_edges example_bin_table)
      [''$0 - $50K'', ''$50K - $100K'', ''$100K - $250K''] dover_loans [''DOVER''] dover_mid
     = [\<lparr>lender = ''A'', row_loan_amount_bin = ''$100K - $250K'', num_loans = 8\<rparr>,
        \<lparr>lender = ''B'', row_loan_amount_bin = ''$100K - $250K'', num_loans = 4\<rparr>]"
  by (simp_all add: segment_of_def example_helper_def dover_rows_def group_of_def
      dover_small_def dover_mid_def)

subsection \<open>The index of a segment\<close>

text \<open>
  C1. The scorer returns a list of records for every helper, bin table, loan table and
  list of cities, and for every record of that list: \<open>hhi\<close> is the sum, over the lender-bin
  rows of the record's segment, of the squared share \<open>num_loans / bin_num_loans * 100\<close>;
  it is greater than 0 and at most 10000; and it is 10000 exactly when one and only one
  lender of the segment has a share of 100. Shares and sums are exact real numbers.
\<close>

theorem hhi_sum_of_squared_shares:
  "\<exists>labels recs. bin_labels BIN_EDGE_TO_LABEL = Inr labels
     \<and> get_score_records glb BIN_EDGE_TO_LABEL df cities = Inr recs
     \<and> (\<forall>r\<in>set recs.
          hhi r = Fin (segment_hhi (segment_of glb (bin_edges BIN_EDGE_TO_LABEL) labels df cities r))
          \<and> segment_hhi (segment_of glb (bin_edges BIN_EDGE_TO_LABEL) labels df cities r)
              = (\<Sum>q\<leftarrow>segment_of glb (bin_edges BIN_EDGE_TO_LABEL) labels df cities r.
                   (real (num_loans q) / real_of_int (bin_num_loans r) * 100) ^ 2)
          \<and> 0 < segment_hhi (segment_of glb (bin_edges BIN_EDGE_TO_LABEL) labels df cities r)
          \<and> segment_hhi (segment_of glb (bin_edges BIN_EDGE_TO_LABEL) labels df cities r) \<le> 10000
          \<and> (hhi r = Fin 10000 \<longleftrightarrow>
               length (filter (\<lambda>s. s = 100)
                 (lender_share_pct (segment_of glb (bin_edges BIN_EDGE_TO_LABEL) labels df cities r))) = 1))"
proof -
  obtain labels recs where l: "bin_labels BIN_EDGE_TO_LABEL = Inr labels"
    and g: "get_score_records glb BIN_EDGE_TO_LABEL df cities = Inr recs"
    using scored_total by blast
  have "hhi r = Fin (segment_hhi (segment_of glb (bin_edges BIN_EDGE_TO_LABEL) labels df cities r))
          \<and> segment_hhi (segment_of glb (bin_edges BIN_EDGE_TO_LABEL) labels df cities r)
              = (\<Sum>q\<leftarrow>segment_of glb (bin_edges BIN_EDGE_TO_LABEL) labels df cities r.
                   (real (num_loans q) / real_of_int (bin_num_loans r) * 100) ^ 2)
          \<and> 0 < segment_hhi (segment_of glb (bin_edges BIN_EDGE_TO_LABEL) labels df cities r)
          \<and> segment_hhi (segment_of glb (bin_edges BIN_EDGE_TO_LABEL) labels df cities r) \<le> 10000
          \<and> (hhi r = Fin 10000 \<longleftrightarrow>
               length (filter (\<lambda>s. s = 100)
                 (lender_share_pct (segment_of glb (bin_edges BIN_EDGE_TO_LABEL) labels df cities r))) = 1)"
    if r: "r \<in> set recs" for r
  proof -
    let ?g = "segment_of glb (bin_edges BIN_EDGE_TO_LABEL) labels df cities r"
    note m = scored_member [OF l g r]
    have pos: "0 < sum_list (map num_loans ?g)"
      using m(1) by (simp add: BIN_NUM_LOANS_MIN_THREASHOLD_def)
    note b = hhi_bounds [OF pos, folded segment_hhi_def]
    have formula: "segment_hhi ?g
        = (\<Sum>q\<leftarrow>?g. (real (num_loans q) / real_of_int (bin_num_loans r) * 100) ^ 2)"
      by (simp add: segment_hhi_def lender_share_pct_def m(2) o_def)
    show ?thesis using m(4) b formula by simp
  qed
  with l g show ?thesis by blast
qed

theorem hhi_sum_of_squared_shares_witness:
  "get_score_records example_helper example_bin_table dover_loans [''DOVER'']
     = Inr [dover_small, dover_mid]
   \<and> hhi dover_small = Fin 10000
   \<and> length (filter (\<lambda>s. s = 100) (lender_share_pct
        [\<lparr>lender = ''A'', row_loan_amount_bin = ''$0 - $50K'', num_loans = 10\<rparr>])) = 1
   \<and> hhi dover_mid = Fin (50000 / 9)
   \<and> segment_hhi [\<lparr>lender = ''A'', row_loan_amount_bin = ''$100K - $250K'', num_loans = 8\<rparr>,
        \<lparr>lender = ''B'', row_loan_amount_bin = ''$100K - $250K'', num_loans = 4\<rparr>] = 50000 / 9
   \<and> segment_hhi [\<lparr>lender = ''A'', row_loan_amount_bin = ''$100K - $250K'', num_loans = 8\<rparr>,
        \<lparr>lender = ''B'', row_loan_amount_bin = ''$100K - $250K'', num_loans = 4\<rparr>] \<le> 10000"
proof -
  from hhi_sum_of_squared_shares [of example_bin_table example_helper dover_loans "[''DOVER'']"]
  obtain labels recs where l: "bin_labels example_bin_table = Inr labels"
    and g: "get_score_records example_helper example_bin_table dover_loans [''DOVER''] = Inr recs"
    and every: "\<forall>r\<in>set recs.
          hhi r = Fin (segment_hhi (segment_of example_helper (bin_edges example_bin_table) labels dover_loans [''DOVER''] r))
          \<and> segment_hhi (segment_of example_helper (bin_edges example_bin_table) labels dover_loans [''DOVER''] r)
              = (\<Sum>q\<leftarrow>segment_of example_helper (bin_edges example_bin_table) labels dover_loans [''DOVER''] r.
                   (real (num_loans q) / real_of_int (bin_num_loans r) * 100) ^ 2)
          \<and> 0 < segment_hhi (segment_of example_helper (bin_edges example_bin_table) labels dover_loans [''DOVER''] r)
          \<and> segment_hhi (segment_of example_helper (bin_edges example_bin_table) labels dover_loans [''DOVER''] r) \<le> 10000
          \<and> (hhi r = Fin 10000 \<longleftrightarrow>
               length (filter (\<lambda>s. s = 100)
                 (lender_share_pct (segment_of example_helper (bin_edges example_bin_table) labels dover_loans [''DOVER''] r))) = 1)"
    by blast
  from l have labels: "labels = [''$0 - $50K'', ''$50K - $100K'', ''$100K - $250K'']"
    by (simp add: example_labels)
  from g have recs: "recs = [dover_small, dover_mid]"
    by (simp add: example_scores)
  have small: "hhi dover_small = Fin 10000" by (simp add: dover_small_def)
  have mid: "hhi dover_mid = Fin (50000 / 9)" by (simp add: dover_mid_def)
  have "dover_small \<in> set recs" by (simp add: recs)
  from bspec [OF every this]
  have "hhi dover_small = Fin 10000 \<longleftrightarrow>
               length (filter (\<lambda>s. s = 100) (lender_share_pct
        [\<lparr>lender = ''A'', row_loan_amount_bin = ''$0 - $50K'', num_loans = 10\<rparr>])) = 1"
    unfolding labels example_segments_of by blast
  with small have one: "length (filter (\<lambda>s. s = 100) (lender_share_pct
        [\<lparr>lender = ''A'', row_loan_amount_bin = ''$0 - $50K'', num_loans = 10\<rparr>])) = 1"
    by blast
  have "dover_mid \<in> set recs" by (simp add: recs)
  from bspec [OF every this]
  have "hhi dover_mid = Fin (segment_hhi
       [\<lparr>lender = ''A'', row_loan_amount_bin = ''$100K - $250K'', num_loans = 8\<rparr>,
        \<lparr>lender = ''B'', row_loan_amount_bin = ''$100K - $250K'', num_loans = 4\<rparr>])
     \<and> segment_hhi [\<lparr>lender = ''A'', row_loan_amount_bin = ''$100K - $250K'', num_loans = 8\<rparr>,
        \<lparr>lender = ''B'', row_loan_amount_bin = ''$100K - $250K'', num_loans = 4\<rparr>] \<le> 10000"
    unfolding labels example_segments_of by blast
  with mid small one example_scores show ?thesis by simp
qed

subsection \<open>Percentages and the minimum number of loans\<close>

text \<open>
  A table with a row that counts no loan, alone in its bin, and a bin with 5 loans: the
  percentage column is computed for both rows, the division of 0 by the group total 0
  gives NaN, and only afterwards are both rows dropped.
\<close>

theorem pct_computed_before_drop_counterexample:
  "map row_bin_num_loans (add_lender_num_loans_pct (add_bin_num_loans sparse_rows)) = [0, 5]
   \<and> map lender_num_loans_pct (add_lender_num_loans_pct (add_bin_num_loans sparse_rows))
       = [NaN, Fin 100]
   \<and> keep_min_bin_num_loans (add_lender_num_loans_pct (add_bin_num_loans sparse_rows)) = []"
  by (simp add: sparse_rows_def add_lender_num_loans_pct_def add_bin_num_loans_def group_of_def
      pd_truediv_def keep_min_bin_num_loans_def BIN_NUM_LOANS_MIN_THREASHOLD_def)

text \<open>
  C2, as amended. The percentage is computed for every row of the table, before any row
  is dropped; for a row whose group total is 0 it is NaN. The rows kept afterwards have a
  group total of at least 10 and the finite percentage \<open>num_loans / bin_num_loans * 100\<close>.
\<close>

theorem pct_computed_then_small_groups_dropped:
  "length (add_lender_num_loans_pct (add_bin_num_loans rows)) = length rows
   \<and> (\<forall>q\<in>set (add_lender_num_loans_pct (add_bin_num_loans rows)).
         row_bin_num_loans q = 0 \<longrightarrow> lender_num_loans_pct q = NaN)
   \<and> (\<forall>q\<in>set (keep_min_bin_num_loans (add_lender_num_loans_pct (add_bin_num_loans rows))).
         10 \<le> row_bin_num_loans q
         \<and> lender_num_loans_pct q
             = Fin (real (num_loans q) / real (row_bin_num_loans q) * 100))"
proof (intro conjI ballI impI)
  show "length (add_lender_num_loans_pct (add_bin_num_loans rows)) = length rows"
    by (simp add: add_lender_num_loans_pct_def add_bin_num_loans_def)
next
  fix q assume q: "q \<in> set (add_lender_num_loans_pct (add_bin_num_loans rows))"
    and zero: "row_bin_num_loans q = 0"
  from with_pct_member [OF q] obtain r where r: "r \<in> set rows"
    and t: "row_bin_num_loans q = bin_total (row_loan_amount_bin r) rows"
    and p: "lender_num_loans_pct q
               = pd_mul (pd_truediv (num_loans r) (bin_total (row_loan_amount_bin r) rows)) 100"
    by blast
  from num_loans_le_total [OF r] t zero have "num_loans r = 0" by simp
  with t zero p show "lender_num_loans_pct q = NaN"
    by (simp add: pd_truediv_def)
next
  fix q assume "q \<in> set (keep_min_bin_num_loans (add_lender_num_loans_pct (add_bin_num_loans rows)))"
  then have q: "q \<in> set (add_lender_num_loans_pct (add_bin_num_loans rows))"
    and big: "BIN_NUM_LOANS_MIN_THREASHOLD \<le> int (row_bin_num_loans q)"
    by (simp_all add: keep_min_bin_num_loans_def)
  from big show ten: "10 \<le> row_bin_num_loans q"
    by (simp add: BIN_NUM_LOANS_MIN_THREASHOLD_def)
  from with_pct_member [OF q] obtain r where r: "r \<in> set rows"
    and n: "num_loans q = num_loans r"
    and t: "row_bin_num_loans q = bin_total (row_loan_amount_bin r) rows"
    and p: "lender_num_loans_pct q
               = pd_mul (pd_truediv (num_loans r) (bin_total (row_loan_amount_bin r) rows)) 100"
    by blast
  from ten t have "bin_total (row_loan_amount_bin r) rows \<noteq> 0" by simp
  from pct_finite [OF this] p n t
  show "lender_num_loans_pct q = Fin (real (num_loans q) / real (row_bin_num_loans q) * 100)"
    by simp
qed

theorem pct_computed_then_small_groups_dropped_witness:
  "length (add_lender_num_loans_pct (add_bin_num_loans dover_rows)) = 5
   \<and> map lender_num_loans_pct (add_lender_num_loans_pct (add_bin_num_loans dover_rows))
       = [Fin (200 / 3), Fin (100 / 3), Fin 100, Fin 100, NaN]
   \<and> map row_bin_num_loans
       (keep_min_bin_num_loans (add_lender_num_loans_pct (add_bin_num_loans dover_rows)))
       = [12, 12, 10]
   \<and> \<lparr>lender = ''A'', row_loan_amount_bin = ''$100K - $250K'', num_loans = 8,
        row_bin_num_loans = 12, lender_num_loans_pct = Fin (200 / 3)\<rparr>
       \<in> set (keep_min_bin_num_loans (add_lender_num_loans_pct (add_bin_num_loans dover_rows)))
   \<and> \<lparr>lender = ''C'', row_loan_amount_bin = ''$5M - $10M'', num_loans = 0,
        row_bin_num_loans = 0, lender_num_loans_pct = NaN\<rparr>
       \<in> set (add_lender_num_loans_pct (add_bin_num_loans dover_rows))"
proof -
  let ?kept = "\<lparr>lender = ''A'', row_loan_amount_bin = ''$100K - $250K'', num_loans = 8,
        row_bin_num_loans = 12, lender_num_loans_pct = Fin (200 / 3)\<rparr>"
  let ?empty = "\<lparr>lender = ''C'', row_loan_amount_bin = ''$5M - $10M'', num_loans = 0,
        row_bin_num_loans = 0, lender_num_loans_pct = NaN\<rparr>"
  note inst = pct_computed_then_small_groups_dropped [of dover_rows]
  have a: "length dover_rows = 5" by (simp add: dover_rows_def)
  have b: "map lender_num_loans_pct (add_lender_num_loans_pct (add_bin_num_loans dover_rows))
       = [Fin (200 / 3), Fin (100 / 3), Fin 100, Fin 100, NaN]"
    by (simp add: dover_rows_def add_lender_num_loans_pct_def add_bin_num_loans_def group_of_def
        pd_truediv_def)
  have c: "map row_bin_num_loans
       (keep_min_bin_num_loans (add_lender_num_loans_pct (add_bin_num_loans dover_rows)))
       = [12, 12, 10]"
    by (simp add: dover_rows_def add_lender_num_loans_pct_def add_bin_num_loans_def group_of_def
        keep_min_bin_num_loans_def BIN_NUM_LOANS_MIN_THREASHOLD_def)
  have d: "?kept \<in> set (keep_min_bin_num_loans
        (add_lender_num_loans_pct (add_bin_num_loans dover_rows)))"
    by (simp add: dover_rows_def add_lender_num_loans_pct_def add_bin_num_loans_def group_of_def
        keep_min_bin_num_loans_def BIN_NUM_LOANS_MIN_THREASHOLD_def pd_truediv_def)
  have e: "?empty \<in> set (add_lender_num_loans_pct (add_bin_num_loans dover_rows))"
    by (simp add: dover_rows_def add_lender_num_loans_pct_def add_bin_num_loans_def group_of_def
        pd_truediv_def)
  from inst have "length (add_lender_num_loans_pct (add_bin_num_loans dover_rows))
      = length dover_rows"
    by blast
  with a have len: "length (add_lender_num_loans_pct (add_bin_num_loans dover_rows)) = 5"
    by simp
  from inst d have "10 \<le> row_bin_num_loans ?kept" by blast
  from inst e have "row_bin_num_loans ?empty = 0 \<longrightarrow> lender_num_loans_pct ?empty = NaN"
    by blast
  from len b c d e show ?thesis by blast
qed

text \<open>
  C6. In the table with the percentage column, for every bin whose total is greater than
  0, the percentages of the rows of the bin are the shares of its lenders, and they sum
  to 100 (exactly, the arithmetic being exact).
\<close>

theorem shares_sum_to_100:
  assumes "0 < bin_total b rows"
  shows "map lender_num_loans_pct (group_of b (add_lender_num_loans_pct (add_bin_num_loans rows)))
           = map Fin (lender_share_pct (group_of b rows))
       \<and> sum_list (lender_share_pct (group_of b rows)) = 100
       \<and> pd_sum (map lender_num_loans_pct
             (group_of b (add_lender_num_loans_pct (add_bin_num_loans rows)))) = Fin 100"
proof -
  have ne: "bin_total b rows \<noteq> 0" using assms by simp
  have pcts: "map lender_num_loans_pct (group_of b (add_lender_num_loans_pct (add_bin_num_loans rows)))
           = map Fin (lender_share_pct (group_of b rows))"
    using ne by (simp add: group_of_with_pct o_def pct_finite lender_share_pct_def bin_total_def)
  have "sum_list (lender_share_pct (group_of b rows)) = 100"
    using assms unfolding bin_total_def by (rule share_pct_sum)
  then show ?thesis by (simp add: pcts pd_sum_Fin)
qed

theorem shares_sum_to_100_witness:
  "0 < bin_total ''$100K - $250K'' dover_rows
   \<and> map lender_num_loans_pct
       (group_of ''$100K - $250K'' (add_lender_num_loans_pct (add_bin_num_loans dover_rows)))
       = [Fin (200 / 3), Fin (100 / 3)]
   \<and> pd_sum (map lender_num_loans_pct
       (group_of ''$100K - $250K'' (add_lender_num_loans_pct (add_bin_num_loans dover_rows))))
       = Fin 100"
proof -
  have pos: "0 < bin_total ''$100K - $250K'' dover_rows"
    by (simp add: bin_total_def group_of_def dover_rows_def)
  have shares: "lender_share_pct (group_of ''$100K - $250K'' dover_rows) = [200 / 3, 100 / 3]"
    by (simp add: lender_share_pct_def group_of_def dover_rows_def)
  have eq: "map Fin (lender_share_pct (group_of ''$100K - $250K'' dover_rows))
      = [Fin (200 / 3), Fin (100 / 3)]"
    by (simp add: shares)
  from shares_sum_to_100 [OF pos] pos show ?thesis
    unfolding eq by blast
qed

subsection \<open>The standard deviation of a segment\<close>

text \<open>
  C7. The scorer returns a list of records, and for every record of it: when the segment
  has exactly one lender-bin row, \<open>bin_num_loans_pct_std_dev\<close> is NaN; when it has at
  least two, it is the square root of the sum of the squared deviations of the shares
  from their mean, divided by the number of rows minus one.
\<close>

theorem std_dev_is_sample_std:
  "\<exists>labels recs. bin_labels BIN_EDGE_TO_LABEL = Inr labels
     \<and> get_score_records glb BIN_EDGE_TO_LABEL df cities = Inr recs
     \<and> (\<forall>r\<in>set recs.
          (length (segment_of glb (bin_edges BIN_EDGE_TO_LABEL) labels df cities r) = 1
             \<longrightarrow> bin_num_loans_pct_std_dev r = NaN)
          \<and> (2 \<le> length (segment_of glb (bin_edges BIN_EDGE_TO_LABEL) labels df cities r)
             \<longrightarrow> bin_num_loans_pct_std_dev r
                   = Fin (sqrt ((\<Sum>s\<leftarrow>lender_share_pct
                                    (segment_of glb (bin_edges BIN_EDGE_TO_LABEL) labels df cities r).
                                  (s - sum_list (lender_share_pct
                                    (segment_of glb (bin_edges BIN_EDGE_TO_LABEL) labels df cities r))
                                     / real (length
                                    (segment_of glb (bin_edges BIN_EDGE_TO_LABEL) labels df cities r))) ^ 2)
                               / (real (length
                                    (segment_of glb (bin_edges BIN_EDGE_TO_LABEL) labels df cities r)) - 1)))))"
proof -
  obtain labels recs where l: "bin_labels BIN_EDGE_TO_LABEL = Inr labels"
    and g: "get_score_records glb BIN_EDGE_TO_LABEL df cities = Inr recs"
    using scored_total by blast
  have "(length (segment_of glb (bin_edges BIN_EDGE_TO_LABEL) labels df cities r) = 1
             \<longrightarrow> bin_num_loans_pct_std_dev r = NaN)
          \<and> (2 \<le> length (segment_of glb (bin_edges BIN_EDGE_TO_LABEL) labels df cities r)
             \<longrightarrow> bin_num_loans_pct_std_dev r
                   = Fin (sqrt ((\<Sum>s\<leftarrow>lender_share_pct
                                    (segment_of glb (bin_edges BIN_EDGE_TO_LABEL) labels df cities r).
                                  (s - sum_list (lender_share_pct
                                    (segment_of glb (bin_edges BIN_EDGE_TO_LABEL) labels df cities r))
                                     / real (length
                                    (segment_of glb (bin_edges BIN_EDGE_TO_LABEL) labels df cities r))) ^ 2)
                               / (real (length
                                    (segment_of glb (bin_edges BIN_EDGE_TO_LABEL) labels df cities r)) - 1))))"
    if r: "r \<in> set recs" for r
  proof -
    let ?g = "segment_of glb (bin_edges BIN_EDGE_TO_LABEL) labels df cities r"
    have len: "length (lender_share_pct ?g) = length ?g"
      by (simp add: lender_share_pct_def)
    have "bin_num_loans_pct_std_dev r
            = (if length ?g < 2 then NaN else Fin (sample_std (lender_share_pct ?g)))"
      using scored_member(3) [OF l g r] by (simp add: pd_std_Fin len)
    then show ?thesis
      by (simp add: sample_std_def Let_def len)
  qed
  with l g show ?thesis by blast
qed

theorem std_dev_is_sample_std_witness:
  "get_score_records example_helper example_bin_table dover_loans [''DOVER'']
     = Inr [dover_small, dover_mid]
   \<and> length (segment_of example_helper (bin_edges example_bin_table)
        [''$0 - $50K'', ''$50K - $100K'', ''$100K - $250K''] dover_loans [''DOVER''] dover_small) = 1
   \<and> bin_num_loans_pct_std_dev dover_small = NaN
   \<and> 2 \<le> length (segment_of example_helper (bin_edges example_bin_table)
        [''$0 - $50K'', ''$50K - $100K'', ''$100K - $250K''] dover_loans [''DOVER''] dover_mid)
   \<and> bin_num_loans_pct_std_dev dover_mid = Fin (sqrt (5000 / 9))"
proof -
  from std_dev_is_sample_std [of example_bin_table example_helper dover_loans "[''DOVER'']"]
  obtain labels recs where l: "bin_labels example_bin_table = Inr labels"
    and g: "get_score_records example_helper example_bin_table dover_loans [''DOVER''] = Inr recs"
    and every: "\<forall>r\<in>set recs.
          (length (segment_of example_helper (bin_edges example_bin_table) labels dover_loans [''DOVER''] r) = 1
             \<longrightarrow> bin_num_loans_pct_std_dev r = NaN)
          \<and> (2 \<le> length (segment_of example_helper (bin_edges example_bin_table) labels dover_loans [''DOVER''] r)
             \<longrightarrow> bin_num_loans_pct_std_dev r
                   = Fin (sqrt ((\<Sum>s\<leftarrow>lender_share_pct
                                    (segment_of example_helper (bin_edges example_bin_table) labels dover_loans [''DOVER''] r).
                                  (s - sum_list (lender_share_pct
                                    (segment_of example_helper (bin_edges example_bin_table) labels dover_loans [''DOVER''] r))
                                     / real (length
                                    (segment_of example_helper (bin_edges example_bin_table) labels dover_loans [''DOVER''] r))) ^ 2)
                               / (real (length
                                    (segment_of example_helper (bin_edges example_bin_table) labels dover_loans [''DOVER''] r)) - 1))))"
    by blast
  from l have labels: "labels = [''$0 - $50K'', ''$50K - $100K'', ''$100K - $250K'']"
    by (simp add: example_labels)
  from g have recs: "recs = [dover_small, dover_mid]"
    by (simp add: example_scores)
  have one: "length (segment_of example_helper (bin_edges example_bin_table)
        [''$0 - $50K'', ''$50K - $100K'', ''$100K - $250K''] dover_loans [''DOVER''] dover_small) = 1"
    and two: "2 \<le> length (segment_of example_helper (bin_edges example_bin_table)
        [''$0 - $50K'', ''$50K - $100K'', ''$100K - $250K''] dover_loans [''DOVER''] dover_mid)"
    by (simp_all add: example_segments_of)
  have "dover_small \<in> set recs" by (simp add: recs)
  from bspec [OF every this] one have "bin_num_loans_pct_std_dev dover_small = NaN"
    unfolding labels by blast
  moreover have "bin_num_loans_pct_std_dev dover_mid = Fin (sqrt (5000 / 9))"
    by (simp add: dover_mid_def)
  ultimately show ?thesis using one two example_scores by simp
qed

subsection \<open>The minimum number of loans of a record\<close>

text \<open>
  C9. The scorer returns a list of records, and for every record of it \<open>bin_num_loans\<close> is
  the total number of loans of its segment and is at least 10.
\<close>

theorem records_reach_min_bin_loans:
  "\<exists>labels recs. bin_labels BIN_EDGE_TO_LABEL = Inr labels
     \<and> get_score_records glb BIN_EDGE_TO_LABEL df cities = Inr recs
     \<and> (\<forall>r\<in>set recs.
          bin_num_loans r
            = int (sum_list (map num_loans
                (segment_of glb (bin_edges BIN_EDGE_TO_LABEL) labels df cities r)))
          \<and> 10 \<le> bin_num_loans r)"
proof -
  obtain labels recs where l: "bin_labels BIN_EDGE_TO_LABEL = Inr labels"
    and g: "get_score_records glb BIN_EDGE_TO_LABEL df cities = Inr recs"
    using scored_total by blast
  have "bin_num_loans r
            = int (sum_list (map num_loans
                (segment_of glb (bin_edges BIN_EDGE_TO_LABEL) labels df cities r)))
          \<and> 10 \<le> bin_num_loans r" if r: "r \<in> set recs" for r
    using scored_member(1,2) [OF l g r] by (simp add: BIN_NUM_LOANS_MIN_THREASHOLD_def)
  with l g show ?thesis by blast
qed

theorem records_reach_min_bin_loans_witness:
  "get_score_records example_helper example_bin_table dover_loans [''DOVER'']
     = Inr [dover_small, dover_mid]
   \<and> sum_list (map num_loans dover_rows) = 27
   \<and> bin_num_loans dover_small = 10 \<and> bin_num_loans dover_mid = 12
   \<and> 10 \<le> bin_num_loans dover_small \<and> 10 \<le> bin_num_loans dover_mid"
proof -
  from records_reach_min_bin_loans [of example_bin_table example_helper dover_loans "[''DOVER'']"]
  obtain labels recs where l: "bin_labels example_bin_table = Inr labels"
    and g: "get_score_records example_helper example_bin_table dover_loans [''DOVER''] = Inr recs"
    and every: "\<forall>r\<in>set recs.
          bin_num_loans r
            = int (sum_list (map num_loans
                (segment_of example_helper (bin_edges example_bin_table) labels dover_loans [''DOVER''] r)))
          \<and> 10 \<le> bin_num_loans r"
    by blast
  from g have recs: "recs = [dover_small, dover_mid]"
    by (simp add: example_scores)
  have "dover_small \<in> set recs" "dover_mid \<in> set recs" by (simp_all add: recs)
  with every have "10 \<le> bin_num_loans dover_small \<and> 10 \<le> bin_num_loans dover_mid"
    by blast
  moreover have "bin_num_loans dover_small = 10 \<and> bin_num_loans dover_mid = 12"
    by (simp add: dover_small_def dover_mid_def)
  moreover have "sum_list (map num_loans dover_rows) = 27"
    by (simp add: dover_rows_def)
  ultimately show ?thesis using example_scores by simp
qed

subsection \<open>The page without a score record\<close>

text \<open>
  C8. With no city above the threshold the scorer returns the empty list of score
  records. On that list the selector returns the empty list for every threshold and
  category, but the page does not reach it: the slider raises \<open>ValueError\<close> first, so the
  notice \<open>no_data_selected\<close> and the footer are not shown.
\<close>

theorem no_score_records_page_raises:
  "get_score_records glb BIN_EDGE_TO_LABEL df [] = Inr []
   \<and> get_selected_score_records ([] :: ('h::linorder) score_record list) t market_category = []
   \<and> render_page st_slider st_toggle ([] :: 'h score_record list) market_category
       = Inl ValueError
   \<and> render_page st_slider st_toggle ([] :: 'h score_record list) market_category
       \<noteq> Inr [ShowStInfo ''no_data_selected'', ShowDefaultFooter]"
proof -
  obtain labels where l: "bin_labels BIN_EDGE_TO_LABEL = Inr labels"
    using bin_labels_total by blast
  have "city_to_df df [] = []"
    by (simp add: city_to_df_def)
  then have scorer: "get_score_records glb BIN_EDGE_TO_LABEL df [] = Inr []"
    by (simp add: get_score_records_closed [OF l])
  have selector: "get_selected_score_records ([] :: 'h score_record list) t market_category = []"
    by (simp add: get_selected_score_records_def filtered_records_def py_sorted_def)
  have page: "render_page st_slider st_toggle ([] :: 'h score_record list) market_category
      = Inl ValueError"
    by (simp add: render_page_def show_slider_no_score_records)
  from scorer selector page show ?thesis by simp
qed

end
